theory Spec2Isabelle
  imports Main
begin

section \<open>Schema declarations\<close>

text \<open>
  The repository declares its entities as Mongoose schemas: JavaScript object literals that
  map a path name to an options object. A schema is embedded as the data it is: every
  option object is an association list from the option key, spelled as in the source, to
  its value. A default that is a JavaScript value is \<open>DConst\<close>; a default that is a
  function is \<open>DCall\<close> and receives the clock reading of the moment the document is built.
\<close>

datatype val =
    VNull
  | VStr string
  | VBool bool
  | VId nat
  | VDate int
  | VIds "nat list"
  | VDocs "(string \<times> val) list list"

type_synonym doc = "(string \<times> val) list"

datatype stype = T_String | T_ObjectId | T_Date | T_Boolean

datatype dflt = DConst val | DCall "int \<Rightarrow> val"

datatype optv =
    OType stype
  | OBool bool
  | OStr string
  | OEnum "string list"
  | ODefault dflt

type_synonym options = "(string \<times> optv) list"

datatype fspec =
    Field options
  | PrimArray options
  | DocArray "(string \<times> fspec) list"

record schema =
  paths :: "(string \<times> fspec) list"
  timestamps :: bool

text \<open>\<^verbatim>\<open>src/dbschema/groups.js\<close>, \<open>GroupSchema\<close>.\<close>

definition GroupSchema :: schema where
  "GroupSchema = \<lparr>paths =
     [(''group_name'', Field [(''type'', OType T_String), (''default'', ODefault (DConst (VStr ''Group Name''))),
         (''index'', OBool True)]),
      (''group_description'', Field [(''type'', OType T_String), (''default'', ODefault (DConst VNull))]),
      (''status'', Field [(''type'', OType T_String), (''enum'', OEnum [''PROGRESS'', ''COMPLETED'']),
         (''require'', OBool True), (''default'', ODefault (DConst (VStr ''PROGRESS'')))]),
      (''project_id'', Field [(''type'', OType T_ObjectId), (''ref'', OStr ''Project''),
         (''require'', OBool True), (''index'', OBool True)]),
      (''milestone_id'', Field [(''type'', OType T_ObjectId), (''ref'', OStr ''milestone''),
         (''require'', OBool False), (''default'', ODefault (DConst VNull)), (''index'', OBool True)]),
      (''delete_status'', Field [(''type'', OType T_String), (''enum'', OEnum [''0'', ''1'']),
         (''require'', OBool True), (''default'', ODefault (DConst (VStr ''1'')))])],
     timestamps = True\<rparr>"

text \<open>\<open>GroupSchema.methods.isDeleted\<close>: \<^verbatim>\<open>return this.delete_status === '0'\<close>.\<close>

definition isDeleted :: "doc \<Rightarrow> bool" where
  "isDeleted this = (map_of this ''delete_status'' = Some (VStr ''0''))"

text \<open>
  The Task schema (\<^verbatim>\<open>src/unnamed/part_000\<close>). The default of \<open>comments.created_At\<close> is
  the expression \<^verbatim>\<open>Date.now()\<close>, an argument of the schema constructor: JavaScript
  evaluates it when the module is loaded, so the schema holds the number read then, which
  is the parameter \<open>loaded\<close>. \<open>TaskComment\<close> is the object literal of one element of
  \<open>comments\<close>.
\<close>

definition TaskComment :: "int \<Rightarrow> (string \<times> fspec) list" where
  "TaskComment loaded =
     [(''comment'', Field [(''type'', OType T_String), (''default'', ODefault (DConst VNull))]),
      (''replies'', DocArray
         [(''reply'', Field [(''type'', OType T_String), (''default'', ODefault (DConst VNull))])]),
      (''user_id'', Field [(''type'', OType T_ObjectId), (''ref'', OStr ''User''),
         (''require'', OBool True)]),
      (''is_reply'', Field [(''type'', OType T_Boolean), (''default'', ODefault (DConst (VBool False)))]),
      (''created_At'', Field [(''type'', OType T_Date), (''default'', ODefault (DConst (VDate loaded)))])]"

definition TaskSchema :: "int \<Rightarrow> schema" where
  "TaskSchema loaded = \<lparr>paths =
     [(''project_id'', Field [(''type'', OType T_ObjectId), (''ref'', OStr ''Project''),
         (''require'', OBool True), (''index'', OBool True)]),
      (''milestone_id'', Field [(''type'', OType T_ObjectId), (''ref'', OStr ''milestone''),
         (''require'', OBool False), (''default'', ODefault (DConst VNull)), (''index'', OBool True)]),
      (''parent_id'', Field [(''type'', OType T_ObjectId), (''default'', ODefault (DConst VNull)),
         (''ref'', OStr ''Task'')]),
      (''group_id'', Field [(''type'', OType T_ObjectId), (''default'', ODefault (DConst VNull)),
         (''ref'', OStr ''Group''), (''index'', OBool True)]),
      (''task_name'', Field [(''type'', OType T_String), (''require'', OBool True)]),
      (''task_description'', Field [(''type'', OType T_String), (''default'', ODefault (DConst VNull))]),
      (''task_status'', Field [(''type'', OType T_ObjectId), (''default'', ODefault (DConst VNull)),
         (''ref'', OStr ''Statuses''), (''index'', OBool True)]),
      (''status_name'', Field [(''type'', OType T_String), (''default'', ODefault (DConst (VStr ''NEW'')))]),
      (''task_priority'', Field [(''type'', OType T_String), (''default'', ODefault (DConst VNull))]),
      (''estimate'', Field [(''type'', OType T_String)]),
      (''task_start_date'', Field [(''type'', OType T_Date), (''default'', ODefault (DConst VNull))]),
      (''task_end_date'', Field [(''type'', OType T_Date), (''default'', ODefault (DConst VNull)),
         (''index'', OBool True)]),
      (''assigned_by'', Field [(''type'', OType T_ObjectId), (''default'', ODefault (DConst VNull)),
         (''ref'', OStr ''User''), (''index'', OBool True)]),
      (''assigned_to'', PrimArray [(''type'', OType T_ObjectId), (''default'', ODefault (DConst VNull)),
         (''ref'', OStr ''User''), (''index'', OBool True)]),
      (''task_created_by'', Field [(''type'', OType T_ObjectId), (''ref'', OStr ''User''),
         (''index'', OBool True)]),
      (''comments'', DocArray (TaskComment loaded)),
      (''is_task_finished'', Field [(''type'', OType T_Boolean), (''required'', OBool False),
         (''default'', ODefault (DConst (VBool False))), (''index'', OBool True)]),
      (''task_logged_time'', Field [(''type'', OType T_String), (''default'', ODefault (DConst (VStr ''00:00'')))])],
     timestamps = True\<rparr>"


text \<open>
  \<open>MilestoneSchema\<close> (\<^verbatim>\<open>src/unnamed/part_006\<close>). Here the default of \<open>created_date\<close>
  is an arrow function, \<^verbatim>\<open>() => new Date().toISOString()\<close>, called for each document;
  the path has type Date, so the string is cast back to the date it prints.
\<close>

definition MilestoneSchema :: schema where
  "MilestoneSchema = \<lparr>paths =
     [(''project_id'', Field [(''type'', OType T_ObjectId), (''ref'', OStr ''Project''),
         (''require'', OBool True), (''index'', OBool True)]),
      (''title'', Field [(''type'', OType T_String), (''require'', OBool True)]),
      (''description'', Field [(''type'', OType T_String)]),
      (''status'', Field [(''type'', OType T_String), (''enum'', OEnum [''0'', ''1'']),
         (''require'', OBool True), (''default'', ODefault (DConst (VStr ''1'')))]),
      (''created_by'', Field [(''type'', OType T_ObjectId), (''ref'', OStr ''User''),
         (''require'', OBool True), (''index'', OBool True)]),
      (''created_date'', Field [(''type'', OType T_Date), (''default'', ODefault (DCall (\<lambda>now. VDate now)))]),
      (''is_current_milestone'', Field [(''type'', OType T_Boolean),
         (''default'', ODefault (DConst (VBool False))), (''index'', OBool True)]),
      (''start_date'', Field [(''type'', OType T_Date)]),
      (''end_date'', Field [(''type'', OType T_Date)]),
      (''milestone_created_by'', Field [(''type'', OType T_ObjectId), (''ref'', OStr ''User'')])],
     timestamps = True\<rparr>"

text \<open>
  \<open>TimelogSchema\<close> (\<^verbatim>\<open>src/unnamed/part_004\<close>). The default of \<open>date\<close> is the expression
  \<^verbatim>\<open>new Date(Date.now()).toISOString()\<close>, evaluated when the module is loaded. The
  formatting function of the JavaScript runtime is the parameter \<open>toISOString\<close>.
\<close>

definition TimelogSchema :: "(int \<Rightarrow> string) \<Rightarrow> int \<Rightarrow> schema" where
  "TimelogSchema toISOString loaded = \<lparr>paths =
     [(''project_id'', Field [(''type'', OType T_ObjectId), (''ref'', OStr ''Project''),
         (''require'', OBool True), (''index'', OBool True)]),
      (''task_id'', Field [(''type'', OType T_ObjectId), (''default'', ODefault (DConst VNull)),
         (''ref'', OStr ''Task''), (''index'', OBool True)]),
      (''task_description'', Field [(''type'', OType T_String)]),
      (''date'', Field [(''type'', OType T_String),
         (''default'', ODefault (DConst (VStr (toISOString loaded))))]),
      (''task_start_time'', Field [(''type'', OType T_String), (''default'', ODefault (DConst VNull))]),
      (''task_end_time'', Field [(''type'', OType T_String), (''default'', ODefault (DConst VNull))]),
      (''task_time_spent'', Field [(''type'', OType T_String)]),
      (''user_id'', Field [(''type'', OType T_ObjectId), (''ref'', OStr ''User''),
         (''require'', OBool True), (''index'', OBool True)]),
      (''isBillable'', Field [(''type'', OType T_Boolean), (''default'', ODefault (DConst (VBool False)))]),
      (''isBilled'', Field [(''type'', OType T_Boolean), (''default'', ODefault (DConst (VBool False)))]),
      (''delete_status'', Field [(''type'', OType T_String), (''enum'', OEnum [''0'', ''1'']),
         (''require'', OBool True), (''default'', ODefault (DConst (VStr ''1'')))])],
     timestamps = True\<rparr>"

text \<open>
  \<open>projectDocumentSchema\<close> (\<^verbatim>\<open>src/creating_demo db/dbschema/project_documents.js\<close>), the
  schema of the repository that spells the option \<open>required\<close>.
\<close>

definition projectDocumentSchema :: schema where
  "projectDocumentSchema = \<lparr>paths =
     [(''project_id'', Field [(''type'', OType T_ObjectId), (''required'', OBool True),
         (''ref'', OStr ''Project'')]),
      (''documentName'', Field [(''type'', OType T_String), (''default'', ODefault (DConst VNull))]),
      (''description'', Field [(''type'', OType T_String), (''default'', ODefault (DConst VNull))]),
      (''documentOriginalName'', Field [(''type'', OType T_String), (''default'', ODefault (DConst VNull))]),
      (''documentUniqueName'', Field [(''type'', OType T_String), (''required'', OBool True)]),
      (''s3Key'', Field [(''type'', OType T_String), (''required'', OBool True)]),
      (''s3Url'', Field [(''type'', OType T_String), (''required'', OBool True)]),
      (''documentType'', Field [(''type'', OType T_String), (''default'', ODefault (DConst VNull))])],
     timestamps = True\<rparr>"

section \<open>Document construction and validation\<close>

text \<open>
  Modelled from the spec: the options that the validation engine reads from a declaration.
  The engine is the Mongoose library, to which the schemas above are handed; its code is not
  under \<^verbatim>\<open>src/\<close>. Section 4.1 of the specification names what it does with a declaration:
  it "checks required fields present, enum fields within their domain, applies declared
  defaults for omitted optional fields". The keys it reads are the ones the library defines,
  \<open>required\<close>, \<open>enum\<close> and \<open>default\<close>; an options object may carry any other key, which
  nothing reads.
\<close>

definition isRequired :: "options \<Rightarrow> bool" where
  "isRequired opts = (case map_of opts ''required'' of Some (OBool b) \<Rightarrow> b | _ \<Rightarrow> False)"

definition enumValues :: "options \<Rightarrow> string list option" where
  "enumValues opts = (case map_of opts ''enum'' of Some (OEnum vs) \<Rightarrow> Some vs | _ \<Rightarrow> None)"

definition defaultValue :: "int \<Rightarrow> options \<Rightarrow> val option" where
  "defaultValue now opts =
     (case map_of opts ''default'' of
        Some (ODefault (DConst v)) \<Rightarrow> Some v
      | Some (ODefault (DCall f)) \<Rightarrow> Some (f now)
      | _ \<Rightarrow> None)"

text \<open>
  Modelled from the spec: the construction of a document from a candidate object (the
  constructor of a Mongoose model, not under \<^verbatim>\<open>src/\<close>), which "applies declared defaults for
  omitted optional fields". At clock reading \<open>now\<close> a declared path keeps the candidate's
  value, an omitted path receives its default, an omitted array is empty, the elements of an
  array of subdocuments are constructed with the subschema, and a key that the schema does
  not declare is dropped.
\<close>

fun applyDefault :: "int \<Rightarrow> fspec \<Rightarrow> val option \<Rightarrow> val option"
and applyDefaults :: "int \<Rightarrow> (string \<times> fspec) list \<Rightarrow> doc \<Rightarrow> doc" where
  "applyDefault now (Field opts) None = defaultValue now opts"
| "applyDefault now (Field opts) (Some v) = Some v"
| "applyDefault now (PrimArray opts) None = Some (VIds [])"
| "applyDefault now (PrimArray opts) (Some v) = Some v"
| "applyDefault now (DocArray sub) None = Some (VDocs [])"
| "applyDefault now (DocArray sub) (Some (VDocs ds)) = Some (VDocs (map (applyDefaults now sub) ds))"
| "applyDefault now (DocArray sub) (Some v) = Some v"
| "applyDefaults now [] c = []"
| "applyDefaults now ((n, s) # fs) c =
     (case applyDefault now s (map_of c n) of
        None \<Rightarrow> applyDefaults now fs c
      | Some v \<Rightarrow> (n, v) # applyDefaults now fs c)"

text \<open>
  Modelled from the spec: the checks of the validation engine (not under \<^verbatim>\<open>src/\<close>). A
  failure "reports which field(s) violated which constraint (missing required field, value
  outside enum domain)": an error is a list of paths, each with the constraint it violates.
  A required path must hold a value other than \<open>null\<close>; a path with an enum must hold one of
  the listed strings when it holds a value. Whether the enum check lets an explicit \<open>null\<close>
  pass differs between releases of the library, so that is the parameter \<open>null_ok\<close>.
\<close>

datatype seg = Key string | Idx nat

datatype violation = MissingRequired | OutsideEnum

type_synonym ValidationError = "(seg list \<times> violation) list"

definition checkRequired :: "options \<Rightarrow> val option \<Rightarrow> violation list" where
  "checkRequired opts v =
     (if isRequired opts \<and> (v = None \<or> v = Some VNull) then [MissingRequired] else [])"

definition checkEnum :: "bool \<Rightarrow> options \<Rightarrow> val option \<Rightarrow> violation list" where
  "checkEnum null_ok opts v =
     (case enumValues opts of
        None \<Rightarrow> []
      | Some vs \<Rightarrow>
          (case v of
             None \<Rightarrow> []
           | Some VNull \<Rightarrow> if null_ok then [] else [OutsideEnum]
           | Some (VStr s) \<Rightarrow> if s \<in> set vs then [] else [OutsideEnum]
           | Some _ \<Rightarrow> [OutsideEnum]))"

fun checkPath :: "bool \<Rightarrow> fspec \<Rightarrow> val option \<Rightarrow> ValidationError"
and checkPaths :: "bool \<Rightarrow> (string \<times> fspec) list \<Rightarrow> doc \<Rightarrow> ValidationError" where
  "checkPath null_ok (Field opts) v =
     map (Pair []) (checkRequired opts v @ checkEnum null_ok opts v)"
| "checkPath null_ok (PrimArray opts) v = []"
| "checkPath null_ok (DocArray sub) (Some (VDocs ds)) =
     concat (map (\<lambda>(i, d). map (\<lambda>(p, e). (Idx i # p, e)) (checkPaths null_ok sub d))
                 (enumerate 0 ds))"
| "checkPath null_ok (DocArray sub) v = []"
| "checkPaths null_ok [] d = []"
| "checkPaths null_ok ((n, s) # fs) d =
     map (\<lambda>(p, e). (Key n # p, e)) (checkPath null_ok s (map_of d n)) @ checkPaths null_ok fs d"

text \<open>
  Modelled from the spec: \<open>validate(entityType, candidateRecord) -> ValidatedRecord |
  ValidationError\<close> of section 4.1 (the engine is not under \<^verbatim>\<open>src/\<close>): the candidate is
  constructed with its defaults and checked; \<open>Inr\<close> is the validated record, \<open>Inl\<close> the error.
\<close>

definition validate :: "bool \<Rightarrow> schema \<Rightarrow> int \<Rightarrow> doc \<Rightarrow> ValidationError + doc" where
  "validate null_ok sch now candidate =
     (let d = applyDefaults now (paths sch) candidate;
          errs = checkPaths null_ok (paths sch) d
      in if errs = [] then Inr d else Inl errs)"

text \<open>
  Modelled from the spec: saving a candidate into a collection (the list of its stored
  documents), which the library does and \<^verbatim>\<open>src/\<close> does not contain. A record "is rejected by
  validation before any insert is attempted": the candidate is validated first, and only a
  valid document is appended. \<open>Inl\<close> is the rejection, and the collection stays as it was.
\<close>

definition save :: "bool \<Rightarrow> schema \<Rightarrow> int \<Rightarrow> doc \<Rightarrow> doc list \<Rightarrow> ValidationError + doc list" where
  "save null_ok sch now candidate coll =
     (case validate null_ok sch now candidate of
        Inl errs \<Rightarrow> Inl errs
      | Inr d \<Rightarrow> Inr (coll @ [d]))"


section \<open>The seed script\<close>

text \<open>
  \<open>seedDatabase\<close> (\<^verbatim>\<open>src/creating_demo db/dbschema/statuses.js\<close>, second document of the
  file) connects, deletes the documents of the 19 models it imports, inserts 18 batches of
  document literals, prints a summary, closes the connection and ends the process.
\<close>

datatype model =
    Client | Designation | Group | InviteUser | LoggedUser | Milestone | Permission
  | Project | ProjectDocument | Role | Session | Skill | Status | Task | Technology
  | TimeLog | User | UserAvailability | UserBooking

text \<open>
  The store gives every inserted document an identifier that no other document has; the
  identifiers are numbered from the counter \<open>next_id\<close>. Of a stored document the model keeps
  the identifier and the paths that hold identifiers of other documents, either as an
  ObjectId (\<^verbatim>\<open>x._id\<close>) or as its string (\<^verbatim>\<open>x._id.toString()\<close>).
\<close>

datatype ident = ObjectId nat | IdString nat

fun id_of :: "ident \<Rightarrow> nat" where
  "id_of (ObjectId n) = n"
| "id_of (IdString n) = n"

type_synonym stored = "nat \<times> (string \<times> ident) list"

record store =
  colls :: "model \<Rightarrow> stored list"
  next_id :: nat

definition deleteMany :: "model \<Rightarrow> store \<Rightarrow> store" where
  "deleteMany m s = s\<lparr>colls := (colls s)(m := [])\<rparr>"

definition insertMany :: "model \<Rightarrow> (string \<times> ident) list list \<Rightarrow> store \<Rightarrow> nat list \<times> store" where
  "insertMany m ds s =
     (let ids = [next_id s ..< next_id s + length ds]
      in (ids, s\<lparr>colls := (colls s)(m := colls s m @ zip ids ds),
                  next_id := next_id s + length ds\<rparr>))"

text \<open>
  The paths of each schema that hold the identifier of another document, with the model
  named by the \<open>ref\<close> option of the path (\<open>ref: 'milestone'\<close>, \<open>'Statuses'\<close> and \<open>'Group'\<close> are
  the Milestone, Status and Group models). A path inside an array or a nested object is
  written with dots. \<open>LoggedUser.user_id\<close> has type String and no \<open>ref\<close>; the script stores
  the string of a user's identifier there. The schemas of Client and Session are not among
  the sources; their literals in the script hold a name only.
\<close>

fun references :: "model \<Rightarrow> (string \<times> model) list" where
  "references User = [(''roles'', Role), (''designation'', Designation), (''skills'', Skill)]"
| "references Project =
     [(''client'', Client), (''technologies.server.techId'', Technology),
      (''technologies.client.techId'', Technology)]"
| "references Milestone =
     [(''project_id'', Project), (''created_by'', User), (''milestone_created_by'', User)]"
| "references Group = [(''project_id'', Project), (''milestone_id'', Milestone)]"
| "references Task =
     [(''project_id'', Project), (''milestone_id'', Milestone), (''parent_id'', Task),
      (''group_id'', Group), (''task_status'', Status), (''assigned_by'', User),
      (''assigned_to'', User), (''task_created_by'', User), (''comments.user_id'', User)]"
| "references TimeLog = [(''project_id'', Project), (''task_id'', Task), (''user_id'', User)]"
| "references InviteUser = [(''user_id'', User), (''project_id'', Project)]"
| "references Permission = [(''user_id'', User), (''project_id'', Project), (''assigned_by'', User)]"
| "references UserAvailability =
     [(''user_id'', User), (''project_id'', Project), (''availability_session.session_id'', Session)]"
| "references UserBooking =
     [(''user_id'', User), (''bookedBy'', User), (''availability_booking_session.session_id'', Session)]"
| "references LoggedUser = [(''user_id'', User)]"
| "references ProjectDocument = [(''project_id'', Project)]"
| "references _ = []"

text \<open>The other models that a model references.\<close>

definition depends :: "model \<Rightarrow> model list" where
  "depends m = remdups (filter (\<lambda>t. t \<noteq> m) (map snd (references m)))"

definition all_models :: "model list" where
  "all_models =
     [Client, Designation, Group, InviteUser, LoggedUser, Milestone, Permission, Project,
      ProjectDocument, Role, Session, Skill, Status, Task, Technology, TimeLog, User,
      UserAvailability, UserBooking]"

text \<open>
  Referential integrity of a store: every identifier held by a stored document sits on a
  path that references some model, and is the identifier of a document stored for that model.
\<close>

definition integrity :: "store \<Rightarrow> bool" where
  "integrity s =
     list_all (\<lambda>m. list_all (\<lambda>d. list_all (\<lambda>(p, v).
        case map_of (references m) p of
          None \<Rightarrow> False
        | Some t \<Rightarrow> id_of v \<in> fst ` set (colls s t)) (snd d)) (colls s m)) all_models"

subsection \<open>The document literals\<close>

text \<open>
  Each \<^verbatim>\<open>insertMany\<close> call of the script takes an array of object literals. A literal is
  embedded as its identifier-valued entries, in source order: \<open>IdOf Role 0\<close> is the expression
  \<^verbatim>\<open>roles[0]._id\<close>, where \<^verbatim>\<open>roles\<close> is the constant bound to the result of
  \<^verbatim>\<open>Role.insertMany\<close>, and \<open>IdToString User 0\<close> is \<^verbatim>\<open>users[0]._id.toString()\<close>. The
  elements of an array-valued path are listed under the path's name. The other entries of a
  literal (names, dates, flags, texts) read no constant and are left out.
\<close>

datatype idexpr = IdOf model nat | IdToString model nat

type_synonym literal = "(string \<times> idexpr) list"

definition clients_literal :: "literal list" where
  "clients_literal =
     [[], [], [], [], [], [], [], [], [], [], [], []]"

definition designations_literal :: "literal list" where
  "designations_literal =
     [[], [], [], [], [], [], [], [], [], []]"

definition skills_literal :: "literal list" where
  "skills_literal =
     [[], [], [], [], [], [], [], [], [], [], [], [], [], [], [], [], [], [], [], []]"

definition roles_literal :: "literal list" where
  "roles_literal =
     [[], [], [], [], []]"

definition users_literal :: "literal list" where
  "users_literal =
     [[(''roles'', IdOf Role 0), (''designation'', IdOf Designation 0), (''skills'', IdOf Skill 0),
       (''skills'', IdOf Skill 1), (''skills'', IdOf Skill 2)],
      [(''roles'', IdOf Role 1), (''designation'', IdOf Designation 1), (''skills'', IdOf Skill 1),
       (''skills'', IdOf Skill 8)],
      [(''roles'', IdOf Role 2), (''designation'', IdOf Designation 2), (''skills'', IdOf Skill 3),
       (''skills'', IdOf Skill 4)],
      [(''roles'', IdOf Role 1), (''designation'', IdOf Designation 3), (''skills'', IdOf Skill 5),
       (''skills'', IdOf Skill 6)],
      [(''roles'', IdOf Role 1), (''designation'', IdOf Designation 4), (''skills'', IdOf Skill 7),
       (''skills'', IdOf Skill 1)],
      [(''roles'', IdOf Role 1), (''designation'', IdOf Designation 5), (''skills'', IdOf Skill 5),
       (''skills'', IdOf Skill 6), (''skills'', IdOf Skill 2)],
      [(''roles'', IdOf Role 1), (''designation'', IdOf Designation 1), (''skills'', IdOf Skill 0),
       (''skills'', IdOf Skill 2), (''skills'', IdOf Skill 9)],
      [(''roles'', IdOf Role 1), (''designation'', IdOf Designation 0), (''skills'', IdOf Skill 1),
       (''skills'', IdOf Skill 3), (''skills'', IdOf Skill 8)],
      [(''roles'', IdOf Role 1), (''designation'', IdOf Designation 3), (''skills'', IdOf Skill 4),
       (''skills'', IdOf Skill 5)],
      [(''roles'', IdOf Role 1), (''designation'', IdOf Designation 5), (''skills'', IdOf Skill 5),
       (''skills'', IdOf Skill 6), (''skills'', IdOf Skill 13)],
      [(''roles'', IdOf Role 2), (''designation'', IdOf Designation 2), (''skills'', IdOf Skill 3)],
      [(''roles'', IdOf Role 1), (''designation'', IdOf Designation 6), (''skills'', IdOf Skill 0),
       (''skills'', IdOf Skill 2), (''skills'', IdOf Skill 8), (''skills'', IdOf Skill 14)],
      [(''roles'', IdOf Role 1), (''designation'', IdOf Designation 1), (''skills'', IdOf Skill 14),
       (''skills'', IdOf Skill 15)],
      [(''roles'', IdOf Role 1), (''designation'', IdOf Designation 4), (''skills'', IdOf Skill 1),
       (''skills'', IdOf Skill 4), (''skills'', IdOf Skill 19)],
      [(''roles'', IdOf Role 1), (''designation'', IdOf Designation 3), (''skills'', IdOf Skill 1),
       (''skills'', IdOf Skill 10)],
      [(''roles'', IdOf Role 1), (''designation'', IdOf Designation 1), (''skills'', IdOf Skill 16),
       (''skills'', IdOf Skill 17), (''skills'', IdOf Skill 18)],
      [(''roles'', IdOf Role 2), (''designation'', IdOf Designation 8)],
      [(''roles'', IdOf Role 1), (''designation'', IdOf Designation 7)],
      [(''roles'', IdOf Role 1), (''designation'', IdOf Designation 0), (''skills'', IdOf Skill 4),
       (''skills'', IdOf Skill 11), (''skills'', IdOf Skill 19)],
      [(''roles'', IdOf Role 1), (''designation'', IdOf Designation 5), (''skills'', IdOf Skill 5),
       (''skills'', IdOf Skill 6), (''skills'', IdOf Skill 12), (''skills'', IdOf Skill 13)]]"

definition technologies_literal :: "literal list" where
  "technologies_literal =
     [[], [], [], [], [], [], [], [], [], [], [], []]"

definition projects_literal :: "literal list" where
  "projects_literal =
     [[(''client'', IdOf Client 0), (''technologies.client.techId'', IdOf Technology 0),
       (''technologies.server.techId'', IdOf Technology 4), (''technologies.server.techId'', IdOf
       Technology 8)],
      [(''client'', IdOf Client 1), (''technologies.client.techId'', IdOf Technology 0),
       (''technologies.server.techId'', IdOf Technology 4)],
      [(''client'', IdOf Client 2)],
      [(''client'', IdOf Client 5), (''technologies.client.techId'', IdOf Technology 1),
       (''technologies.server.techId'', IdOf Technology 4)],
      [(''client'', IdOf Client 9), (''technologies.client.techId'', IdOf Technology 0),
       (''technologies.server.techId'', IdOf Technology 4)],
      [(''client'', IdOf Client 7)],
      [(''client'', IdOf Client 6)],
      [(''client'', IdOf Client 8), (''technologies.client.techId'', IdOf Technology 3),
       (''technologies.server.techId'', IdOf Technology 4)],
      [(''client'', IdOf Client 11)],
      [(''client'', IdOf Client 10)]]"

definition statuses_literal :: "literal list" where
  "statuses_literal =
     [[], [], [], [], [], []]"

definition milestones_literal :: "literal list" where
  "milestones_literal =
     [[(''project_id'', IdOf Project 0), (''created_by'', IdOf User 2), (''milestone_created_by'',
       IdOf User 2)],
      [(''project_id'', IdOf Project 0), (''created_by'', IdOf User 2), (''milestone_created_by'',
       IdOf User 2)],
      [(''project_id'', IdOf Project 1), (''created_by'', IdOf User 2), (''milestone_created_by'',
       IdOf User 2)],
      [(''project_id'', IdOf Project 1), (''created_by'', IdOf User 2), (''milestone_created_by'',
       IdOf User 2)],
      [(''project_id'', IdOf Project 2), (''created_by'', IdOf User 10), (''milestone_created_by'',
       IdOf User 10)],
      [(''project_id'', IdOf Project 3), (''created_by'', IdOf User 2), (''milestone_created_by'',
       IdOf User 2)],
      [(''project_id'', IdOf Project 4), (''created_by'', IdOf User 10), (''milestone_created_by'',
       IdOf User 10)],
      [(''project_id'', IdOf Project 5), (''created_by'', IdOf User 16), (''milestone_created_by'',
       IdOf User 16)],
      [(''project_id'', IdOf Project 6), (''created_by'', IdOf User 2), (''milestone_created_by'',
       IdOf User 2)],
      [(''project_id'', IdOf Project 7), (''created_by'', IdOf User 10), (''milestone_created_by'',
       IdOf User 10)],
      [(''project_id'', IdOf Project 7), (''created_by'', IdOf User 10), (''milestone_created_by'',
       IdOf User 10)],
      [(''project_id'', IdOf Project 8), (''created_by'', IdOf User 16), (''milestone_created_by'',
       IdOf User 16)],
      [(''project_id'', IdOf Project 8), (''created_by'', IdOf User 16), (''milestone_created_by'',
       IdOf User 16)],
      [(''project_id'', IdOf Project 9), (''created_by'', IdOf User 2), (''milestone_created_by'',
       IdOf User 2)]]"

definition groups_literal :: "literal list" where
  "groups_literal =
     [[(''project_id'', IdOf Project 0), (''milestone_id'', IdOf Milestone 0)],
      [(''project_id'', IdOf Project 0), (''milestone_id'', IdOf Milestone 0)],
      [(''project_id'', IdOf Project 0), (''milestone_id'', IdOf Milestone 0)],
      [(''project_id'', IdOf Project 1), (''milestone_id'', IdOf Milestone 2)],
      [(''project_id'', IdOf Project 1), (''milestone_id'', IdOf Milestone 2)],
      [(''project_id'', IdOf Project 2), (''milestone_id'', IdOf Milestone 4)],
      [(''project_id'', IdOf Project 2), (''milestone_id'', IdOf Milestone 4)],
      [(''project_id'', IdOf Project 3), (''milestone_id'', IdOf Milestone 5)],
      [(''project_id'', IdOf Project 3), (''milestone_id'', IdOf Milestone 5)],
      [(''project_id'', IdOf Project 4), (''milestone_id'', IdOf Milestone 6)],
      [(''project_id'', IdOf Project 4), (''milestone_id'', IdOf Milestone 6)],
      [(''project_id'', IdOf Project 5), (''milestone_id'', IdOf Milestone 7)],
      [(''project_id'', IdOf Project 5), (''milestone_id'', IdOf Milestone 7)],
      [(''project_id'', IdOf Project 6), (''milestone_id'', IdOf Milestone 8)],
      [(''project_id'', IdOf Project 6), (''milestone_id'', IdOf Milestone 8)],
      [(''project_id'', IdOf Project 7), (''milestone_id'', IdOf Milestone 9)],
      [(''project_id'', IdOf Project 7), (''milestone_id'', IdOf Milestone 9)],
      [(''project_id'', IdOf Project 8), (''milestone_id'', IdOf Milestone 11)],
      [(''project_id'', IdOf Project 8), (''milestone_id'', IdOf Milestone 11)],
      [(''project_id'', IdOf Project 9), (''milestone_id'', IdOf Milestone 13)]]"

definition tasks_literal :: "literal list" where
  "tasks_literal =
     [[(''project_id'', IdOf Project 0), (''milestone_id'', IdOf Milestone 0), (''group_id'', IdOf
       Group 0), (''task_status'', IdOf Status 3), (''assigned_by'', IdOf User 2), (''assigned_to'',
       IdOf User 1), (''task_created_by'', IdOf User 2), (''comments.user_id'', IdOf User 2)],
      [(''project_id'', IdOf Project 0), (''milestone_id'', IdOf Milestone 0), (''group_id'', IdOf
       Group 1), (''task_status'', IdOf Status 1), (''assigned_by'', IdOf User 2), (''assigned_to'',
       IdOf User 0), (''task_created_by'', IdOf User 2)],
      [(''project_id'', IdOf Project 0), (''milestone_id'', IdOf Milestone 0), (''group_id'', IdOf
       Group 0), (''task_status'', IdOf Status 0), (''assigned_by'', IdOf User 2), (''assigned_to'',
       IdOf User 1), (''assigned_to'', IdOf User 3), (''task_created_by'', IdOf User 2)],
      [(''project_id'', IdOf Project 0), (''milestone_id'', IdOf Milestone 0), (''group_id'', IdOf
       Group 2), (''task_status'', IdOf Status 3), (''assigned_by'', IdOf User 2), (''assigned_to'',
       IdOf User 0), (''task_created_by'', IdOf User 2), (''comments.user_id'', IdOf User 2)],
      [(''project_id'', IdOf Project 0), (''milestone_id'', IdOf Milestone 0), (''group_id'', IdOf
       Group 1), (''task_status'', IdOf Status 0), (''assigned_by'', IdOf User 2), (''assigned_to'',
       IdOf User 0), (''assigned_to'', IdOf User 5), (''task_created_by'', IdOf User 2)],
      [(''project_id'', IdOf Project 0), (''milestone_id'', IdOf Milestone 0), (''group_id'', IdOf
       Group 0), (''task_status'', IdOf Status 1), (''assigned_by'', IdOf User 2), (''assigned_to'',
       IdOf User 6), (''task_created_by'', IdOf User 2)],
      [(''project_id'', IdOf Project 1), (''milestone_id'', IdOf Milestone 2), (''group_id'', IdOf
       Group 3), (''task_status'', IdOf Status 3), (''assigned_by'', IdOf User 2), (''assigned_to'',
       IdOf User 0), (''task_created_by'', IdOf User 2)],
      [(''project_id'', IdOf Project 1), (''milestone_id'', IdOf Milestone 2), (''group_id'', IdOf
       Group 4), (''task_status'', IdOf Status 1), (''assigned_by'', IdOf User 2), (''assigned_to'',
       IdOf User 7), (''task_created_by'', IdOf User 2)],
      [(''project_id'', IdOf Project 1), (''milestone_id'', IdOf Milestone 2), (''group_id'', IdOf
       Group 3), (''task_status'', IdOf Status 2), (''assigned_by'', IdOf User 2), (''assigned_to'',
       IdOf User 15), (''task_created_by'', IdOf User 2)],
      [(''project_id'', IdOf Project 1), (''milestone_id'', IdOf Milestone 2), (''group_id'', IdOf
       Group 4), (''task_status'', IdOf Status 0), (''assigned_by'', IdOf User 2), (''assigned_to'',
       IdOf User 7), (''task_created_by'', IdOf User 2)],
      [(''project_id'', IdOf Project 2), (''milestone_id'', IdOf Milestone 4), (''group_id'', IdOf
       Group 5), (''task_status'', IdOf Status 1), (''assigned_by'', IdOf User 10),
       (''assigned_to'', IdOf User 8), (''task_created_by'', IdOf User 10)],
      [(''project_id'', IdOf Project 2), (''milestone_id'', IdOf Milestone 4), (''group_id'', IdOf
       Group 6), (''task_status'', IdOf Status 0), (''assigned_by'', IdOf User 10),
       (''assigned_to'', IdOf User 1), (''assigned_to'', IdOf User 6), (''task_created_by'', IdOf
       User 10)],
      [(''project_id'', IdOf Project 2), (''milestone_id'', IdOf Milestone 4), (''group_id'', IdOf
       Group 5), (''task_status'', IdOf Status 3), (''assigned_by'', IdOf User 10),
       (''assigned_to'', IdOf User 18), (''task_created_by'', IdOf User 10)],
      [(''project_id'', IdOf Project 3), (''milestone_id'', IdOf Milestone 5), (''group_id'', IdOf
       Group 7), (''task_status'', IdOf Status 1), (''assigned_by'', IdOf User 2), (''assigned_to'',
       IdOf User 8), (''task_created_by'', IdOf User 2)],
      [(''project_id'', IdOf Project 3), (''milestone_id'', IdOf Milestone 5), (''group_id'', IdOf
       Group 7), (''task_status'', IdOf Status 0), (''assigned_by'', IdOf User 2), (''assigned_to'',
       IdOf User 6), (''assigned_to'', IdOf User 7), (''task_created_by'', IdOf User 2)],
      [(''project_id'', IdOf Project 3), (''milestone_id'', IdOf Milestone 5), (''group_id'', IdOf
       Group 8), (''task_status'', IdOf Status 1), (''assigned_by'', IdOf User 2), (''assigned_to'',
       IdOf User 11), (''task_created_by'', IdOf User 2)],
      [(''project_id'', IdOf Project 4), (''milestone_id'', IdOf Milestone 6), (''group_id'', IdOf
       Group 9), (''task_status'', IdOf Status 1), (''assigned_by'', IdOf User 10),
       (''assigned_to'', IdOf User 7), (''task_created_by'', IdOf User 10)],
      [(''project_id'', IdOf Project 4), (''milestone_id'', IdOf Milestone 6), (''group_id'', IdOf
       Group 9), (''task_status'', IdOf Status 0), (''assigned_by'', IdOf User 10),
       (''assigned_to'', IdOf User 9), (''task_created_by'', IdOf User 10)],
      [(''project_id'', IdOf Project 4), (''milestone_id'', IdOf Milestone 6), (''group_id'', IdOf
       Group 10), (''task_status'', IdOf Status 1), (''assigned_by'', IdOf User 10),
       (''assigned_to'', IdOf User 1), (''task_created_by'', IdOf User 10)],
      [(''project_id'', IdOf Project 5), (''milestone_id'', IdOf Milestone 7), (''group_id'', IdOf
       Group 11), (''task_status'', IdOf Status 0), (''assigned_by'', IdOf User 16),
       (''assigned_to'', IdOf User 4), (''task_created_by'', IdOf User 16)],
      [(''project_id'', IdOf Project 5), (''milestone_id'', IdOf Milestone 7), (''group_id'', IdOf
       Group 12), (''task_status'', IdOf Status 1), (''assigned_by'', IdOf User 16),
       (''assigned_to'', IdOf User 18), (''assigned_to'', IdOf User 7), (''task_created_by'', IdOf
       User 16)],
      [(''project_id'', IdOf Project 5), (''milestone_id'', IdOf Milestone 7), (''group_id'', IdOf
       Group 12), (''task_status'', IdOf Status 0), (''assigned_by'', IdOf User 16),
       (''assigned_to'', IdOf User 18), (''task_created_by'', IdOf User 16)],
      [(''project_id'', IdOf Project 6), (''milestone_id'', IdOf Milestone 8), (''group_id'', IdOf
       Group 13), (''task_status'', IdOf Status 3), (''assigned_by'', IdOf User 2),
       (''assigned_to'', IdOf User 9), (''task_created_by'', IdOf User 2)],
      [(''project_id'', IdOf Project 6), (''milestone_id'', IdOf Milestone 8), (''group_id'', IdOf
       Group 13), (''task_status'', IdOf Status 1), (''assigned_by'', IdOf User 2),
       (''assigned_to'', IdOf User 18), (''assigned_to'', IdOf User 11), (''task_created_by'', IdOf
       User 2)],
      [(''project_id'', IdOf Project 6), (''milestone_id'', IdOf Milestone 8), (''group_id'', IdOf
       Group 14), (''task_status'', IdOf Status 0), (''assigned_by'', IdOf User 2),
       (''assigned_to'', IdOf User 1), (''task_created_by'', IdOf User 2)],
      [(''project_id'', IdOf Project 7), (''milestone_id'', IdOf Milestone 9), (''group_id'', IdOf
       Group 15), (''task_status'', IdOf Status 2), (''assigned_by'', IdOf User 10),
       (''assigned_to'', IdOf User 6), (''task_created_by'', IdOf User 10)],
      [(''project_id'', IdOf Project 7), (''milestone_id'', IdOf Milestone 9), (''group_id'', IdOf
       Group 16), (''task_status'', IdOf Status 1), (''assigned_by'', IdOf User 10),
       (''assigned_to'', IdOf User 7), (''assigned_to'', IdOf User 12), (''task_created_by'', IdOf
       User 10)],
      [(''project_id'', IdOf Project 7), (''milestone_id'', IdOf Milestone 9), (''group_id'', IdOf
       Group 16), (''task_status'', IdOf Status 0), (''assigned_by'', IdOf User 10),
       (''assigned_to'', IdOf User 14), (''task_created_by'', IdOf User 10)],
      [(''project_id'', IdOf Project 8), (''milestone_id'', IdOf Milestone 11), (''group_id'', IdOf
       Group 17), (''task_status'', IdOf Status 3), (''assigned_by'', IdOf User 16),
       (''assigned_to'', IdOf User 15), (''task_created_by'', IdOf User 16)],
      [(''project_id'', IdOf Project 8), (''milestone_id'', IdOf Milestone 11), (''group_id'', IdOf
       Group 17), (''task_status'', IdOf Status 1), (''assigned_by'', IdOf User 16),
       (''assigned_to'', IdOf User 0), (''task_created_by'', IdOf User 16)],
      [(''project_id'', IdOf Project 8), (''milestone_id'', IdOf Milestone 11), (''group_id'', IdOf
       Group 18), (''task_status'', IdOf Status 0), (''assigned_by'', IdOf User 16),
       (''assigned_to'', IdOf User 9), (''assigned_to'', IdOf User 19), (''task_created_by'', IdOf
       User 16)],
      [(''project_id'', IdOf Project 9), (''milestone_id'', IdOf Milestone 13), (''group_id'', IdOf
       Group 19), (''task_status'', IdOf Status 1), (''assigned_by'', IdOf User 2),
       (''assigned_to'', IdOf User 9), (''assigned_to'', IdOf User 19), (''task_created_by'', IdOf
       User 2)],
      [(''project_id'', IdOf Project 9), (''milestone_id'', IdOf Milestone 13), (''group_id'', IdOf
       Group 19), (''task_status'', IdOf Status 0), (''assigned_by'', IdOf User 2),
       (''assigned_to'', IdOf User 1), (''assigned_to'', IdOf User 14), (''task_created_by'', IdOf
       User 2)],
      [(''project_id'', IdOf Project 9), (''milestone_id'', IdOf Milestone 13), (''group_id'', IdOf
       Group 19), (''task_status'', IdOf Status 0), (''assigned_by'', IdOf User 2),
       (''assigned_to'', IdOf User 5), (''task_created_by'', IdOf User 2)]]"

definition timelogs_literal :: "literal list" where
  "timelogs_literal =
     [[(''project_id'', IdOf Project 0), (''task_id'', IdOf Task 0), (''user_id'', IdOf User 1)],
      [(''project_id'', IdOf Project 0), (''task_id'', IdOf Task 0), (''user_id'', IdOf User 1)],
      [(''project_id'', IdOf Project 0), (''task_id'', IdOf Task 1), (''user_id'', IdOf User 0)],
      [(''project_id'', IdOf Project 0), (''task_id'', IdOf Task 1), (''user_id'', IdOf User 0)],
      [(''project_id'', IdOf Project 0), (''task_id'', IdOf Task 3), (''user_id'', IdOf User 0)],
      [(''project_id'', IdOf Project 0), (''task_id'', IdOf Task 5), (''user_id'', IdOf User 6)],
      [(''project_id'', IdOf Project 1), (''task_id'', IdOf Task 6), (''user_id'', IdOf User 0)],
      [(''project_id'', IdOf Project 1), (''task_id'', IdOf Task 7), (''user_id'', IdOf User 7)],
      [(''project_id'', IdOf Project 1), (''task_id'', IdOf Task 7), (''user_id'', IdOf User 7)],
      [(''project_id'', IdOf Project 1), (''task_id'', IdOf Task 8), (''user_id'', IdOf User 15)],
      [(''project_id'', IdOf Project 1), (''task_id'', IdOf Task 8), (''user_id'', IdOf User 15)],
      [(''project_id'', IdOf Project 2), (''task_id'', IdOf Task 10), (''user_id'', IdOf User 8)],
      [(''project_id'', IdOf Project 2), (''task_id'', IdOf Task 10), (''user_id'', IdOf User 8)],
      [(''project_id'', IdOf Project 2), (''task_id'', IdOf Task 12), (''user_id'', IdOf User 18)],
      [(''project_id'', IdOf Project 2), (''task_id'', IdOf Task 12), (''user_id'', IdOf User 18)],
      [(''project_id'', IdOf Project 3), (''task_id'', IdOf Task 13), (''user_id'', IdOf User 8)],
      [(''project_id'', IdOf Project 3), (''task_id'', IdOf Task 15), (''user_id'', IdOf User 11)],
      [(''project_id'', IdOf Project 3), (''task_id'', IdOf Task 15), (''user_id'', IdOf User 11)],
      [(''project_id'', IdOf Project 4), (''task_id'', IdOf Task 16), (''user_id'', IdOf User 7)],
      [(''project_id'', IdOf Project 4), (''task_id'', IdOf Task 16), (''user_id'', IdOf User 7)],
      [(''project_id'', IdOf Project 4), (''task_id'', IdOf Task 18), (''user_id'', IdOf User 1)],
      [(''project_id'', IdOf Project 4), (''task_id'', IdOf Task 18), (''user_id'', IdOf User 1)],
      [(''project_id'', IdOf Project 5), (''task_id'', IdOf Task 20), (''user_id'', IdOf User 18)],
      [(''project_id'', IdOf Project 5), (''task_id'', IdOf Task 20), (''user_id'', IdOf User 7)],
      [(''project_id'', IdOf Project 6), (''task_id'', IdOf Task 22), (''user_id'', IdOf User 9)],
      [(''project_id'', IdOf Project 6), (''task_id'', IdOf Task 22), (''user_id'', IdOf User 9)],
      [(''project_id'', IdOf Project 6), (''task_id'', IdOf Task 23), (''user_id'', IdOf User 18)],
      [(''project_id'', IdOf Project 6), (''task_id'', IdOf Task 23), (''user_id'', IdOf User 11)],
      [(''project_id'', IdOf Project 6), (''task_id'', IdOf Task 23), (''user_id'', IdOf User 18)],
      [(''project_id'', IdOf Project 7), (''task_id'', IdOf Task 25), (''user_id'', IdOf User 6)],
      [(''project_id'', IdOf Project 7), (''task_id'', IdOf Task 25), (''user_id'', IdOf User 6)],
      [(''project_id'', IdOf Project 7), (''task_id'', IdOf Task 25), (''user_id'', IdOf User 6)],
      [(''project_id'', IdOf Project 7), (''task_id'', IdOf Task 26), (''user_id'', IdOf User 7)],
      [(''project_id'', IdOf Project 7), (''task_id'', IdOf Task 26), (''user_id'', IdOf User 12)],
      [(''project_id'', IdOf Project 8), (''task_id'', IdOf Task 28), (''user_id'', IdOf User 15)],
      [(''project_id'', IdOf Project 8), (''task_id'', IdOf Task 28), (''user_id'', IdOf User 15)],
      [(''project_id'', IdOf Project 8), (''task_id'', IdOf Task 28), (''user_id'', IdOf User 15)],
      [(''project_id'', IdOf Project 8), (''task_id'', IdOf Task 29), (''user_id'', IdOf User 0)],
      [(''project_id'', IdOf Project 8), (''task_id'', IdOf Task 29), (''user_id'', IdOf User 0)],
      [(''project_id'', IdOf Project 9), (''task_id'', IdOf Task 31), (''user_id'', IdOf User 9)],
      [(''project_id'', IdOf Project 9), (''task_id'', IdOf Task 31), (''user_id'', IdOf User 19)],
      [(''project_id'', IdOf Project 9), (''task_id'', IdOf Task 31), (''user_id'', IdOf User 9)],
      [(''project_id'', IdOf Project 0), (''task_id'', IdOf Task 1), (''user_id'', IdOf User 0)],
      [(''project_id'', IdOf Project 0), (''task_id'', IdOf Task 3), (''user_id'', IdOf User 0)],
      [(''project_id'', IdOf Project 0), (''task_id'', IdOf Task 5), (''user_id'', IdOf User 6)],
      [(''project_id'', IdOf Project 0), (''task_id'', IdOf Task 2), (''user_id'', IdOf User 1)],
      [(''project_id'', IdOf Project 0), (''task_id'', IdOf Task 4), (''user_id'', IdOf User 0)],
      [(''project_id'', IdOf Project 1), (''task_id'', IdOf Task 7), (''user_id'', IdOf User 7)],
      [(''project_id'', IdOf Project 1), (''task_id'', IdOf Task 8), (''user_id'', IdOf User 15)],
      [(''project_id'', IdOf Project 1), (''task_id'', IdOf Task 9), (''user_id'', IdOf User 7)],
      [(''project_id'', IdOf Project 1), (''task_id'', IdOf Task 6), (''user_id'', IdOf User 0)],
      [(''project_id'', IdOf Project 2), (''task_id'', IdOf Task 10), (''user_id'', IdOf User 8)],
      [(''project_id'', IdOf Project 2), (''task_id'', IdOf Task 11), (''user_id'', IdOf User 1)],
      [(''project_id'', IdOf Project 2), (''task_id'', IdOf Task 12), (''user_id'', IdOf User 18)],
      [(''project_id'', IdOf Project 3), (''task_id'', IdOf Task 13), (''user_id'', IdOf User 8)],
      [(''project_id'', IdOf Project 3), (''task_id'', IdOf Task 14), (''user_id'', IdOf User 6)],
      [(''project_id'', IdOf Project 3), (''task_id'', IdOf Task 15), (''user_id'', IdOf User 11)],
      [(''project_id'', IdOf Project 3), (''task_id'', IdOf Task 14), (''user_id'', IdOf User 7)],
      [(''project_id'', IdOf Project 4), (''task_id'', IdOf Task 16), (''user_id'', IdOf User 7)],
      [(''project_id'', IdOf Project 4), (''task_id'', IdOf Task 17), (''user_id'', IdOf User 9)],
      [(''project_id'', IdOf Project 4), (''task_id'', IdOf Task 18), (''user_id'', IdOf User 1)],
      [(''project_id'', IdOf Project 4), (''task_id'', IdOf Task 17), (''user_id'', IdOf User 9)],
      [(''project_id'', IdOf Project 5), (''task_id'', IdOf Task 19), (''user_id'', IdOf User 4)],
      [(''project_id'', IdOf Project 5), (''task_id'', IdOf Task 20), (''user_id'', IdOf User 18)],
      [(''project_id'', IdOf Project 5), (''task_id'', IdOf Task 21), (''user_id'', IdOf User 18)],
      [(''project_id'', IdOf Project 5), (''task_id'', IdOf Task 19), (''user_id'', IdOf User 4)],
      [(''project_id'', IdOf Project 6), (''task_id'', IdOf Task 23), (''user_id'', IdOf User 18)],
      [(''project_id'', IdOf Project 6), (''task_id'', IdOf Task 23), (''user_id'', IdOf User 11)],
      [(''project_id'', IdOf Project 6), (''task_id'', IdOf Task 24), (''user_id'', IdOf User 1)],
      [(''project_id'', IdOf Project 6), (''task_id'', IdOf Task 22), (''user_id'', IdOf User 9)],
      [(''project_id'', IdOf Project 7), (''task_id'', IdOf Task 26), (''user_id'', IdOf User 7)],
      [(''project_id'', IdOf Project 7), (''task_id'', IdOf Task 26), (''user_id'', IdOf User 12)],
      [(''project_id'', IdOf Project 7), (''task_id'', IdOf Task 27), (''user_id'', IdOf User 14)],
      [(''project_id'', IdOf Project 7), (''task_id'', IdOf Task 25), (''user_id'', IdOf User 6)],
      [(''project_id'', IdOf Project 8), (''task_id'', IdOf Task 29), (''user_id'', IdOf User 0)],
      [(''project_id'', IdOf Project 8), (''task_id'', IdOf Task 30), (''user_id'', IdOf User 9)],
      [(''project_id'', IdOf Project 8), (''task_id'', IdOf Task 30), (''user_id'', IdOf User 19)],
      [(''project_id'', IdOf Project 8), (''task_id'', IdOf Task 28), (''user_id'', IdOf User 15)],
      [(''project_id'', IdOf Project 9), (''task_id'', IdOf Task 31), (''user_id'', IdOf User 19)],
      [(''project_id'', IdOf Project 9), (''task_id'', IdOf Task 32), (''user_id'', IdOf User 1)],
      [(''project_id'', IdOf Project 9), (''task_id'', IdOf Task 32), (''user_id'', IdOf User 14)],
      [(''project_id'', IdOf Project 9), (''task_id'', IdOf Task 33), (''user_id'', IdOf User 5)],
      [(''project_id'', IdOf Project 0), (''task_id'', IdOf Task 0), (''user_id'', IdOf User 2)],
      [(''project_id'', IdOf Project 1), (''task_id'', IdOf Task 7), (''user_id'', IdOf User 7)],
      [(''project_id'', IdOf Project 2), (''task_id'', IdOf Task 11), (''user_id'', IdOf User 10)],
      [(''project_id'', IdOf Project 3), (''task_id'', IdOf Task 15), (''user_id'', IdOf User 11)],
      [(''project_id'', IdOf Project 4), (''task_id'', IdOf Task 18), (''user_id'', IdOf User 1)]]"

definition inviteUsers_literal :: "literal list" where
  "inviteUsers_literal =
     [[(''user_id'', IdOf User 0), (''project_id'', IdOf Project 0)],
      [(''user_id'', IdOf User 1), (''project_id'', IdOf Project 0)],
      [(''user_id'', IdOf User 2), (''project_id'', IdOf Project 0)],
      [(''user_id'', IdOf User 3), (''project_id'', IdOf Project 0)],
      [(''user_id'', IdOf User 5), (''project_id'', IdOf Project 0)],
      [(''user_id'', IdOf User 6), (''project_id'', IdOf Project 0)],
      [(''user_id'', IdOf User 0), (''project_id'', IdOf Project 1)],
      [(''user_id'', IdOf User 2), (''project_id'', IdOf Project 1)],
      [(''user_id'', IdOf User 4), (''project_id'', IdOf Project 1)],
      [(''user_id'', IdOf User 7), (''project_id'', IdOf Project 1)],
      [(''user_id'', IdOf User 15), (''project_id'', IdOf Project 1)],
      [(''user_id'', IdOf User 8), (''project_id'', IdOf Project 2)],
      [(''user_id'', IdOf User 10), (''project_id'', IdOf Project 2)],
      [(''user_id'', IdOf User 18), (''project_id'', IdOf Project 2)],
      [(''user_id'', IdOf User 1), (''project_id'', IdOf Project 2)],
      [(''user_id'', IdOf User 6), (''project_id'', IdOf Project 2)],
      [(''user_id'', IdOf User 2), (''project_id'', IdOf Project 3)],
      [(''user_id'', IdOf User 6), (''project_id'', IdOf Project 3)],
      [(''user_id'', IdOf User 7), (''project_id'', IdOf Project 3)],
      [(''user_id'', IdOf User 8), (''project_id'', IdOf Project 3)],
      [(''user_id'', IdOf User 11), (''project_id'', IdOf Project 3)],
      [(''user_id'', IdOf User 7), (''project_id'', IdOf Project 4)],
      [(''user_id'', IdOf User 9), (''project_id'', IdOf Project 4)],
      [(''user_id'', IdOf User 10), (''project_id'', IdOf Project 4)],
      [(''user_id'', IdOf User 1), (''project_id'', IdOf Project 4)],
      [(''user_id'', IdOf User 16), (''project_id'', IdOf Project 5)],
      [(''user_id'', IdOf User 4), (''project_id'', IdOf Project 5)],
      [(''user_id'', IdOf User 18), (''project_id'', IdOf Project 5)],
      [(''user_id'', IdOf User 7), (''project_id'', IdOf Project 5)],
      [(''user_id'', IdOf User 2), (''project_id'', IdOf Project 6)],
      [(''user_id'', IdOf User 9), (''project_id'', IdOf Project 6)],
      [(''user_id'', IdOf User 18), (''project_id'', IdOf Project 6)],
      [(''user_id'', IdOf User 11), (''project_id'', IdOf Project 6)],
      [(''user_id'', IdOf User 1), (''project_id'', IdOf Project 6)],
      [(''user_id'', IdOf User 10), (''project_id'', IdOf Project 7)],
      [(''user_id'', IdOf User 6), (''project_id'', IdOf Project 7)],
      [(''user_id'', IdOf User 7), (''project_id'', IdOf Project 7)],
      [(''user_id'', IdOf User 12), (''project_id'', IdOf Project 7)],
      [(''user_id'', IdOf User 14), (''project_id'', IdOf Project 7)],
      [(''user_id'', IdOf User 16), (''project_id'', IdOf Project 8)],
      [(''user_id'', IdOf User 15), (''project_id'', IdOf Project 8)],
      [(''user_id'', IdOf User 0), (''project_id'', IdOf Project 8)],
      [(''user_id'', IdOf User 9), (''project_id'', IdOf Project 8)],
      [(''user_id'', IdOf User 19), (''project_id'', IdOf Project 8)],
      [(''user_id'', IdOf User 2), (''project_id'', IdOf Project 9)],
      [(''user_id'', IdOf User 9), (''project_id'', IdOf Project 9)],
      [(''user_id'', IdOf User 19), (''project_id'', IdOf Project 9)],
      [(''user_id'', IdOf User 1), (''project_id'', IdOf Project 9)],
      [(''user_id'', IdOf User 14), (''project_id'', IdOf Project 9)],
      [(''user_id'', IdOf User 5), (''project_id'', IdOf Project 9)]]"

definition permissions_literal :: "literal list" where
  "permissions_literal =
     [[(''user_id'', IdOf User 1), (''project_id'', IdOf Project 0), (''assigned_by'', IdOf User 2)],
      [(''user_id'', IdOf User 0), (''project_id'', IdOf Project 0), (''assigned_by'', IdOf User 2)],
      [(''user_id'', IdOf User 6), (''project_id'', IdOf Project 0), (''assigned_by'', IdOf User 2)],
      [(''user_id'', IdOf User 7), (''project_id'', IdOf Project 1), (''assigned_by'', IdOf User 2)],
      [(''user_id'', IdOf User 8), (''project_id'', IdOf Project 2), (''assigned_by'', IdOf User
       10)],
      [(''user_id'', IdOf User 18), (''project_id'', IdOf Project 2), (''assigned_by'', IdOf User
       10)],
      [(''user_id'', IdOf User 11), (''project_id'', IdOf Project 3), (''assigned_by'', IdOf User
       2)],
      [(''user_id'', IdOf User 7), (''project_id'', IdOf Project 4), (''assigned_by'', IdOf User
       10)]]"

definition sessions_literal :: "literal list" where
  "sessions_literal =
     [[], [], [], []]"

definition userAvailabilities_literal :: "literal list" where
  "userAvailabilities_literal =
     [[(''user_id'', IdOf User 0), (''project_id'', IdOf Project 0),
       (''availability_session.session_id'', IdOf Session 0), (''availability_session.session_id'',
       IdOf Session 1), (''availability_session.session_id'', IdOf Session 2)],
      [(''user_id'', IdOf User 1), (''project_id'', IdOf Project 0),
       (''availability_session.session_id'', IdOf Session 0), (''availability_session.session_id'',
       IdOf Session 1), (''availability_session.session_id'', IdOf Session 2)],
      [(''user_id'', IdOf User 0), (''project_id'', IdOf Project 0),
       (''availability_session.session_id'', IdOf Session 0), (''availability_session.session_id'',
       IdOf Session 1)],
      [(''user_id'', IdOf User 7), (''project_id'', IdOf Project 1),
       (''availability_session.session_id'', IdOf Session 0), (''availability_session.session_id'',
       IdOf Session 1), (''availability_session.session_id'', IdOf Session 2)],
      [(''user_id'', IdOf User 8), (''project_id'', IdOf Project 2),
       (''availability_session.session_id'', IdOf Session 0), (''availability_session.session_id'',
       IdOf Session 1)],
      [(''user_id'', IdOf User 11), (''project_id'', IdOf Project 3),
       (''availability_session.session_id'', IdOf Session 0), (''availability_session.session_id'',
       IdOf Session 1), (''availability_session.session_id'', IdOf Session 2)],
      [(''user_id'', IdOf User 7), (''project_id'', IdOf Project 4),
       (''availability_session.session_id'', IdOf Session 0), (''availability_session.session_id'',
       IdOf Session 1)],
      [(''user_id'', IdOf User 18), (''project_id'', IdOf Project 5),
       (''availability_session.session_id'', IdOf Session 0), (''availability_session.session_id'',
       IdOf Session 1), (''availability_session.session_id'', IdOf Session 2)],
      [(''user_id'', IdOf User 9), (''project_id'', IdOf Project 6),
       (''availability_session.session_id'', IdOf Session 0), (''availability_session.session_id'',
       IdOf Session 1)],
      [(''user_id'', IdOf User 6), (''project_id'', IdOf Project 7),
       (''availability_session.session_id'', IdOf Session 0), (''availability_session.session_id'',
       IdOf Session 1), (''availability_session.session_id'', IdOf Session 2)]]"

definition userBookings_literal :: "literal list" where
  "userBookings_literal =
     [[(''user_id'', IdOf User 0), (''bookedBy'', IdOf User 2),
       (''availability_booking_session.session_id'', IdOf Session 0),
       (''availability_booking_session.session_id'', IdOf Session 1)],
      [(''user_id'', IdOf User 1), (''bookedBy'', IdOf User 2),
       (''availability_booking_session.session_id'', IdOf Session 1)],
      [(''user_id'', IdOf User 7), (''bookedBy'', IdOf User 2),
       (''availability_booking_session.session_id'', IdOf Session 0),
       (''availability_booking_session.session_id'', IdOf Session 1)],
      [(''user_id'', IdOf User 8), (''bookedBy'', IdOf User 10),
       (''availability_booking_session.session_id'', IdOf Session 0)],
      [(''user_id'', IdOf User 11), (''bookedBy'', IdOf User 2),
       (''availability_booking_session.session_id'', IdOf Session 1)],
      [(''user_id'', IdOf User 18), (''bookedBy'', IdOf User 16),
       (''availability_booking_session.session_id'', IdOf Session 0),
       (''availability_booking_session.session_id'', IdOf Session 1)],
      [(''user_id'', IdOf User 9), (''bookedBy'', IdOf User 2),
       (''availability_booking_session.session_id'', IdOf Session 0),
       (''availability_booking_session.session_id'', IdOf Session 1)],
      [(''user_id'', IdOf User 6), (''bookedBy'', IdOf User 10),
       (''availability_booking_session.session_id'', IdOf Session 2)],
      [(''user_id'', IdOf User 3), (''bookedBy'', IdOf User 2),
       (''availability_booking_session.session_id'', IdOf Session 0)],
      [(''user_id'', IdOf User 5), (''bookedBy'', IdOf User 2),
       (''availability_booking_session.session_id'', IdOf Session 1),
       (''availability_booking_session.session_id'', IdOf Session 2)],
      [(''user_id'', IdOf User 15), (''bookedBy'', IdOf User 16),
       (''availability_booking_session.session_id'', IdOf Session 0)],
      [(''user_id'', IdOf User 4), (''bookedBy'', IdOf User 16),
       (''availability_booking_session.session_id'', IdOf Session 1)],
      [(''user_id'', IdOf User 12), (''bookedBy'', IdOf User 10),
       (''availability_booking_session.session_id'', IdOf Session 0),
       (''availability_booking_session.session_id'', IdOf Session 1)],
      [(''user_id'', IdOf User 14), (''bookedBy'', IdOf User 10),
       (''availability_booking_session.session_id'', IdOf Session 2)],
      [(''user_id'', IdOf User 19), (''bookedBy'', IdOf User 2),
       (''availability_booking_session.session_id'', IdOf Session 0),
       (''availability_booking_session.session_id'', IdOf Session 1)]]"

definition loggedUsers_literal :: "literal list" where
  "loggedUsers_literal =
     [[(''user_id'', IdToString User 0)],
      [(''user_id'', IdToString User 1)],
      [(''user_id'', IdToString User 2)],
      [(''user_id'', IdToString User 3)],
      [(''user_id'', IdToString User 6)],
      [(''user_id'', IdToString User 7)],
      [(''user_id'', IdToString User 8)],
      [(''user_id'', IdToString User 11)],
      [(''user_id'', IdToString User 14)],
      [(''user_id'', IdToString User 15)],
      [(''user_id'', IdToString User 18)],
      [(''user_id'', IdToString User 19)]]"

text \<open>The batches in the order of the script, each with the word its progress line prints.\<close>

definition populate_steps :: "(model \<times> string \<times> literal list) list" where
  "populate_steps =
     [(Client, ''clients'', clients_literal),
      (Designation, ''designations'', designations_literal),
      (Skill, ''skills'', skills_literal),
      (Role, ''roles'', roles_literal),
      (User, ''users'', users_literal),
      (Technology, ''technologies'', technologies_literal),
      (Project, ''projects'', projects_literal),
      (Status, ''statuses'', statuses_literal),
      (Milestone, ''milestones'', milestones_literal),
      (Group, ''groups'', groups_literal),
      (Task, ''tasks'', tasks_literal),
      (TimeLog, ''timelogs'', timelogs_literal),
      (InviteUser, ''invite users'', inviteUsers_literal),
      (Permission, ''permissions'', permissions_literal),
      (Session, ''sessions'', sessions_literal),
      (UserAvailability, ''user availabilities'', userAvailabilities_literal),
      (UserBooking, ''user bookings'', userBookings_literal),
      (LoggedUser, ''logged users'', loggedUsers_literal)]"

fun target :: "idexpr \<Rightarrow> model" where
  "target (IdOf m i) = m"
| "target (IdToString m i) = m"

fun position :: "idexpr \<Rightarrow> nat" where
  "position (IdOf m i) = i"
| "position (IdToString m i) = i"

subsection \<open>Running the script\<close>

text \<open>
  The calls the script makes on the driver. Whether a call is rejected is decided outside the
  script (the server, the network, the validation of a batch), so a run takes a function
  \<open>faults\<close> that gives the message of the error a call throws, if it throws.
\<close>

datatype op = Connect | DeleteMany model | InsertMany model | Close

type_synonym faults = "op \<Rightarrow> string option"

datatype js_error =
    ReferenceError model
  | TypeError model nat
  | Rejected op string

text \<open>
  Reading \<^verbatim>\<open>xs[i]._id\<close>: before the declaration of the constant has run the read throws a
  ReferenceError; past the end of the array \<^verbatim>\<open>xs[i]\<close> is undefined and reading its \<^verbatim>\<open>_id\<close>
  throws a TypeError.
\<close>

type_synonym bindings = "model \<Rightarrow> nat list option"

definition element :: "bindings \<Rightarrow> model \<Rightarrow> nat \<Rightarrow> js_error + nat" where
  "element b m i =
     (case b m of
        None \<Rightarrow> Inl (ReferenceError m)
      | Some ids \<Rightarrow> if i < length ids then Inr (ids ! i) else Inl (TypeError m i))"

fun evalExpr :: "bindings \<Rightarrow> idexpr \<Rightarrow> js_error + ident" where
  "evalExpr b (IdOf m i) = (case element b m i of Inl e \<Rightarrow> Inl e | Inr n \<Rightarrow> Inr (ObjectId n))"
| "evalExpr b (IdToString m i) = (case element b m i of Inl e \<Rightarrow> Inl e | Inr n \<Rightarrow> Inr (IdString n))"

fun evalLiteral :: "bindings \<Rightarrow> literal \<Rightarrow> js_error + (string \<times> ident) list" where
  "evalLiteral b [] = Inr []"
| "evalLiteral b ((p, e) # rest) =
     (case evalExpr b e of
        Inl err \<Rightarrow> Inl err
      | Inr v \<Rightarrow> (case evalLiteral b rest of Inl err \<Rightarrow> Inl err | Inr vs \<Rightarrow> Inr ((p, v) # vs)))"

fun evalLiterals :: "bindings \<Rightarrow> literal list \<Rightarrow> js_error + (string \<times> ident) list list" where
  "evalLiterals b [] = Inr []"
| "evalLiterals b (l # ls) =
     (case evalLiteral b l of
        Inl err \<Rightarrow> Inl err
      | Inr d \<Rightarrow> (case evalLiterals b ls of Inl err \<Rightarrow> Inl err | Inr ds \<Rightarrow> Inr (d # ds)))"

text \<open>
  What the script prints, as far as it depends on the run: the progress line
  \<^verbatim>\<open>Created ${xs.length} <word>\<close> of a batch, a line of the block "Summary of Created Demo
  Data" (label and count), another line that ends in a number, the line of the caught
  error, and the line that follows the closing of the connection. The fixed lines (banners,
  the sample users and projects, the hints) are left out.
\<close>

datatype event =
    Created nat string
  | Summary string nat
  | Stat string nat
  | ErrorDetails js_error
  | ConnectionClosed

record run =
  bindings :: bindings
  db :: store
  console :: "event list"
  issued :: "op list"

text \<open>
  The clear phase awaits \<^verbatim>\<open>Promise.all\<close> of 19 \<^verbatim>\<open>deleteMany({})\<close> calls: all of them are
  issued, every call that is not rejected empties its collection, and the await throws the
  error of a rejected call (here: of the first one in the array).
\<close>

definition clear :: "faults \<Rightarrow> run \<Rightarrow> js_error option \<times> run" where
  "clear f st =
     (let st' = st\<lparr>db := fold (\<lambda>m s. if f (DeleteMany m) = None then deleteMany m s else s)
                            all_models (db st),
                   issued := issued st @ map DeleteMany all_models\<rparr>
      in case List.find (\<lambda>m. f (DeleteMany m) \<noteq> None) all_models of
           None \<Rightarrow> (None, st')
         | Some m \<Rightarrow> (Some (Rejected (DeleteMany m) (the (f (DeleteMany m)))), st'))"

text \<open>
  The populate phase: the argument array of a batch is evaluated, \<^verbatim>\<open>insertMany\<close> is called
  and awaited, its result is bound to the constant of the batch, and the progress line is
  printed. The first error ends the phase. A rejected \<^verbatim>\<open>insertMany\<close> is modelled as having
  stored nothing.
\<close>

definition acknowledge :: "model \<Rightarrow> string \<Rightarrow> (string \<times> ident) list list \<Rightarrow> run \<Rightarrow> run" where
  "acknowledge m word ds st =
     (let (ids, s') = insertMany m ds (db st)
      in st\<lparr>bindings := (bindings st)(m \<mapsto> ids), db := s',
            console := console st @ [Created (length ids) word],
            issued := issued st @ [InsertMany m]\<rparr>)"

fun populate :: "faults \<Rightarrow> (model \<times> string \<times> literal list) list \<Rightarrow> run \<Rightarrow> js_error option \<times> run" where
  "populate f [] st = (None, st)"
| "populate f ((m, word, ls) # rest) st =
     (case evalLiterals (bindings st) ls of
        Inl err \<Rightarrow> (Some err, st)
      | Inr ds \<Rightarrow>
          (case f (InsertMany m) of
             Some msg \<Rightarrow> (Some (Rejected (InsertMany m) msg), st\<lparr>issued := issued st @ [InsertMany m]\<rparr>)
           | None \<Rightarrow> populate f rest (acknowledge m word ds st)))"

text \<open>
  The summary block (lines 3323 to 3340 of the file) prints one line per constant, and the
  statistics block (lines 3373 to 3382) prints the literal 19 and the sum written out at
  line 3375. All that these lines read of a constant is \<^verbatim>\<open>xs.length\<close>: \<open>sizes\<close> gives the
  length of each bound constant, and \<open>lengths\<close> reads the constants of a list in turn.
\<close>

definition sizes :: "bindings \<Rightarrow> model \<Rightarrow> nat option" where
  "sizes b = (\<lambda>m. map_option length (b m))"

definition summary_lines :: "(string \<times> model) list" where
  "summary_lines =
     [(''Clients'', Client), (''Designations'', Designation), (''Skills'', Skill),
      (''Roles'', Role), (''Users'', User), (''Technologies'', Technology),
      (''Projects'', Project), (''Statuses'', Status), (''Milestones'', Milestone),
      (''Groups'', Group), (''Tasks'', Task), (''TimeLogs'', TimeLog),
      (''Invite Users'', InviteUser), (''Permissions'', Permission), (''Sessions'', Session),
      (''User Availabilities'', UserAvailability), (''User Bookings'', UserBooking),
      (''Logged Users'', LoggedUser)]"

definition total_documents_terms :: "model list" where
  "total_documents_terms =
     [Client, Designation, Skill, Role, User, Technology, Project, Status, Milestone, Group,
      Task, TimeLog, InviteUser, Permission, Session, UserAvailability, UserBooking, LoggedUser]"

fun lengths :: "(model \<Rightarrow> nat option) \<Rightarrow> model list \<Rightarrow> js_error + nat list" where
  "lengths sz [] = Inr []"
| "lengths sz (m # ms) =
     (case sz m of
        None \<Rightarrow> Inl (ReferenceError m)
      | Some n \<Rightarrow> (case lengths sz ms of Inl e \<Rightarrow> Inl e | Inr ns \<Rightarrow> Inr (n # ns)))"

definition report :: "(model \<Rightarrow> nat option) \<Rightarrow> js_error + event list" where
  "report sz =
     (case lengths sz (map snd summary_lines) of
        Inl e \<Rightarrow> Inl e
      | Inr ns \<Rightarrow>
     (case lengths sz [User, Project] of
        Inl e \<Rightarrow> Inl e
      | Inr sample \<Rightarrow>
     (case lengths sz total_documents_terms of
        Inl e \<Rightarrow> Inl e
      | Inr terms \<Rightarrow>
     (case lengths sz [Project, User] of
        Inl e \<Rightarrow> Inl e
      | Inr active \<Rightarrow>
          Inr (map (\<lambda>((label, m), n). Summary label n) (zip summary_lines ns)
               @ [Stat ''Sample Users Created (Total)'' (sample ! 0),
                  Stat ''Sample Projects Created (Total)'' (sample ! 1),
                  Stat ''Total Collections'' 19,
                  Stat ''Total Documents'' (sum_list terms),
                  Stat ''Projects with Active Tasks'' (active ! 0),
                  Stat ''Active Team Members'' (active ! 1)])))))"

text \<open>The body of the \<^verbatim>\<open>try\<close> block.\<close>

definition try_block :: "faults \<Rightarrow> run \<Rightarrow> js_error option \<times> run" where
  "try_block f st =
     (let st1 = st\<lparr>issued := issued st @ [Connect]\<rparr>
      in case f Connect of
           Some msg \<Rightarrow> (Some (Rejected Connect msg), st1)
         | None \<Rightarrow>
             (case clear f st1 of
                (Some e, st2) \<Rightarrow> (Some e, st2)
              | (None, st2) \<Rightarrow>
                  (case populate f populate_steps st2 of
                     (Some e, st3) \<Rightarrow> (Some e, st3)
                   | (None, st3) \<Rightarrow>
                       (case report (sizes (bindings st3)) of
                          Inl e \<Rightarrow> (Some e, st3)
                        | Inr lines \<Rightarrow> (None, st3\<lparr>console := console st3 @ lines\<rparr>)))))"

text \<open>
  \<^verbatim>\<open>process.exit(code)\<close> of the runtime ends the process with \<open>code\<close>; without an argument
  it takes \<^verbatim>\<open>process.exitCode\<close>, and 0 when that was never assigned. When the \<^verbatim>\<open>finally\<close>
  block throws before it reaches \<^verbatim>\<open>process.exit\<close>, the promise of \<open>seedDatabase\<close> is
  rejected and nothing handles it.
\<close>

datatype ending = Exit int | Unhandled js_error

definition process_exit :: "int option \<Rightarrow> int option \<Rightarrow> ending" where
  "process_exit exitCode code =
     Exit (case code of Some c \<Rightarrow> c | None \<Rightarrow> (case exitCode of Some c \<Rightarrow> c | None \<Rightarrow> 0))"

record result =
  store_after :: store
  printed :: "event list"
  calls :: "op list"
  caught :: "js_error option"
  ending :: ending

text \<open>
  \<open>seedDatabase\<close>: the \<^verbatim>\<open>try\<close> block, the \<^verbatim>\<open>catch\<close> block that prints the message of the
  error, and the \<^verbatim>\<open>finally\<close> block that closes the connection and calls
  \<^verbatim>\<open>process.exit()\<close>. The script assigns \<^verbatim>\<open>process.exitCode\<close> nowhere.
\<close>

definition seedDatabase :: "faults \<Rightarrow> store \<Rightarrow> result" where
  "seedDatabase f s0 =
     (let (err, st) = try_block f \<lparr>bindings = (\<lambda>m. None), db = s0, console = [], issued = []\<rparr>;
          lines = console st @ (case err of None \<Rightarrow> [] | Some e \<Rightarrow> [ErrorDetails e])
      in case f Close of
           Some msg \<Rightarrow>
             \<lparr>store_after = db st, printed = lines, calls = issued st @ [Close],
              caught = err, ending = Unhandled (Rejected Close msg)\<rparr>
         | None \<Rightarrow>
             \<lparr>store_after = db st, printed = lines @ [ConnectionClosed], calls = issued st @ [Close],
              caught = err, ending = process_exit None None\<rparr>)"

text \<open>
  Inputs for concrete runs: no call is rejected; the connection is refused; the deletion of
  the tasks is rejected; an empty store.
\<close>

definition no_faults :: faults where
  "no_faults = (\<lambda>c. None)"

definition connect_refused :: faults where
  "connect_refused = (\<lambda>c. if c = Connect then Some ''connect ECONNREFUSED'' else None)"

definition delete_refused :: faults where
  "delete_refused = (\<lambda>c. if c = DeleteMany Task then Some ''not authorized'' else None)"

definition empty_store :: store where
  "empty_store = \<lparr>colls = (\<lambda>m. []), next_id = 0\<rparr>"

text \<open>Readers of a trace of calls and of the printed lines.\<close>

fun inserted :: "op list \<Rightarrow> model list" where
  "inserted [] = []"
| "inserted (InsertMany m # cs) = m # inserted cs"
| "inserted (c # cs) = inserted cs"

fun precedes :: "'a \<Rightarrow> 'a \<Rightarrow> 'a list \<Rightarrow> bool" where
  "precedes a b [] = False"
| "precedes a b (x # xs) = (if x = a then b \<in> set xs else precedes a b xs)"

fun summary_of :: "event list \<Rightarrow> (string \<times> nat) list" where
  "summary_of [] = []"
| "summary_of (Summary label n # es) = (label, n) # summary_of es"
| "summary_of (e # es) = summary_of es"

fun stat_of :: "string \<Rightarrow> event list \<Rightarrow> nat option" where
  "stat_of label [] = None"
| "stat_of label (Stat l n # es) = (if l = label then Some n else stat_of label es)"
| "stat_of label (e # es) = stat_of label es"

text \<open>
  Two checks of a list of batches that can be computed without running it: every entry of
  every literal sits on a path that references the model of the constant it reads
  (\<open>typed_steps\<close>), and every read falls inside a batch bound earlier (\<open>check_steps\<close>, with
  the sizes of the batches bound so far).
\<close>

definition typed_steps :: "(model \<times> string \<times> literal list) list \<Rightarrow> bool" where
  "typed_steps steps =
     list_all (\<lambda>(m, word, ls).
       list_all (list_all (\<lambda>(p, e). map_of (references m) p = Some (target e))) ls) steps"

fun check_steps :: "(model \<Rightarrow> nat option) \<Rightarrow> (model \<times> string \<times> literal list) list \<Rightarrow> bool" where
  "check_steps sz [] = True"
| "check_steps sz ((m, word, ls) # rest) =
     (list_all (list_all (\<lambda>(p, e). case sz (target e) of None \<Rightarrow> False | Some n \<Rightarrow> position e < n)) ls
      \<and> check_steps (sz(m \<mapsto> length ls)) rest)"

text \<open>The sizes of the bound batches after a list of batches was acknowledged.\<close>

fun sizes_after :: "(model \<Rightarrow> nat option) \<Rightarrow> (model \<times> string \<times> literal list) list \<Rightarrow> model \<Rightarrow> nat option" where
  "sizes_after sz [] = sz"
| "sizes_after sz ((m, word, ls) # rest) = sizes_after (sz(m \<mapsto> length ls)) rest"

text \<open>The number of documents that a list of batches inserts for a model.\<close>

fun seeded :: "(model \<times> string \<times> literal list) list \<Rightarrow> model \<Rightarrow> nat" where
  "seeded [] t = 0"
| "seeded ((m, word, ls) # rest) t = (if m = t then length ls else 0) + seeded rest t"

text \<open>A trace of calls in which every insert comes after the inserts of the models it references.\<close>

fun ordered :: "model list \<Rightarrow> op list \<Rightarrow> bool" where
  "ordered seen [] = True"
| "ordered seen (InsertMany m # cs) = (list_all (\<lambda>t. t \<in> set seen) (depends m) \<and> ordered (m # seen) cs)"
| "ordered seen (c # cs) = ordered seen cs"

text \<open>The calls of a run in which nothing is rejected, without the closing call.\<close>

definition script_calls :: "op list" where
  "script_calls = Connect # map DeleteMany all_models @ map (\<lambda>(m, word, ls). InsertMany m) populate_steps"

text \<open>
  The invariant of the populate phase: the identifiers bound to a constant are identifiers of
  stored documents of its model, and the store has referential integrity.
\<close>

definition bound_stored :: "run \<Rightarrow> bool" where
  "bound_stored st = (\<forall>m ids. bindings st m = Some ids \<longrightarrow> set ids \<subseteq> fst ` set (colls (db st) m))"


section \<open>Properties of construction and validation\<close>

lemma map_of_applyDefaults:
  "distinct (map fst fs) \<Longrightarrow>
   map_of (applyDefaults now fs c) n =
     (case map_of fs n of None \<Rightarrow> None | Some s \<Rightarrow> applyDefault now s (map_of c n))"
proof (induction fs)
  case Nil
  show ?case by simp
next
  case (Cons a fs)
  obtain k s where a: "a = (k, s)" by (cases a)
  from Cons.prems a have notin: "k \<notin> fst ` set fs" and d: "distinct (map fst fs)" by auto
  have absent: "map_of fs k = None" using notin by (simp add: map_of_eq_None_iff)
  show ?case
  proof (cases "n = k")
    case True
    then show ?thesis using a absent Cons.IH [OF d]
      by (cases "applyDefault now s (map_of c k)") simp_all
  next
    case False
    then show ?thesis using a Cons.IH [OF d]
      by (cases "applyDefault now s (map_of c k)") simp_all
  qed
qed

lemma checkPaths_member:
  "(n, Field opts) \<in> set fs \<Longrightarrow>
   e \<in> set (checkRequired opts (map_of d n) @ checkEnum null_ok opts (map_of d n)) \<Longrightarrow>
   ([Key n], e) \<in> set (checkPaths null_ok fs d)"
proof (induction fs)
  case Nil
  then show ?case by simp
next
  case (Cons a fs)
  obtain k s where a: "a = (k, s)" by (cases a)
  show ?case
  proof (cases "(n, Field opts) = a")
    case True
    with a have s: "s = Field opts" and k: "k = n" by simp_all
    have "checkPath null_ok s (map_of d k) = map (Pair []) (checkRequired opts (map_of d n) @ checkEnum null_ok opts (map_of d n))"
      unfolding s k by simp
    then show ?thesis using Cons.prems(2) a k by (auto simp: image_iff)
  next
    case False
    then show ?thesis using Cons a by auto
  qed
qed

text \<open>
  A declared path whose options hold \<open>required: true\<close> and no default is enforced: a candidate
  that omits it is rejected, and the error names the path.
\<close>

lemma required_enforced:
  assumes decl: "(n, Field opts) \<in> set (paths sch)"
    and dist: "distinct (map fst (paths sch))"
    and req: "isRequired opts"
    and nodefault: "map_of opts ''default'' = None"
    and omitted: "map_of c n = None"
  shows "\<exists>errs. save null_ok sch now c coll = Inl errs \<and> ([Key n], MissingRequired) \<in> set errs"
proof -
  let ?d = "applyDefaults now (paths sch) c"
  have "map_of (paths sch) n = Some (Field opts)" using decl dist by simp
  then have stored: "map_of ?d n = None"
    using omitted nodefault by (simp add: map_of_applyDefaults [OF dist] defaultValue_def)
  have "MissingRequired \<in> set (checkRequired opts None)"
    using req by (simp add: checkRequired_def)
  then have "([Key n], MissingRequired) \<in> set (checkPaths null_ok (paths sch) ?d)"
    using checkPaths_member [OF decl, of MissingRequired ?d null_ok] stored by simp
  then show ?thesis
    by (auto simp: save_def validate_def Let_def)
qed

text \<open>
  The project-document schema spells the option \<open>required\<close>, and a document without its
  \<open>s3Key\<close> is rejected.
\<close>

lemma projectDocument_requires_s3Key:
  "save null_ok projectDocumentSchema now [(''project_id'', VId 1), (''documentUniqueName'', VStr ''u''), (''s3Url'', VStr ''x'')] coll =
     Inl [([Key ''s3Key''], MissingRequired)]"
  by (simp add: save_def validate_def projectDocumentSchema_def defaultValue_def
        checkRequired_def checkEnum_def isRequired_def enumValues_def)


text \<open>
  Claim C3. Validating a candidate that omits a field the schema declares required fails with
  a validation error naming the field, before any insert: in particular a Task without
  \<open>task_name\<close>, a Group without \<open>project_id\<close> and a Milestone without \<open>title\<close> are rejected.
  The three schemas write the option as \<open>require\<close>, a key that the validator does not read
  (\<open>required_enforced\<close> above is what the key \<open>required\<close> gives). The theorem evaluates the
  code on the three candidates of the claim: each one is accepted and stored.
\<close>

theorem C3_missing_required_accepted:
  "save null_ok (TaskSchema loaded) now [(''project_id'', VId 1)] [] =
     Inr [[(''project_id'', VId 1), (''milestone_id'', VNull),
      (''parent_id'', VNull), (''group_id'', VNull),
      (''task_description'', VNull), (''task_status'', VNull),
      (''status_name'', VStr ''NEW''), (''task_priority'', VNull),
      (''task_start_date'', VNull), (''task_end_date'', VNull),
      (''assigned_by'', VNull), (''assigned_to'', VIds []),
      (''comments'', VDocs []), (''is_task_finished'', VBool False),
      (''task_logged_time'', VStr ''00:00'')]] \<and>
   save null_ok GroupSchema now [(''group_name'', VStr ''g'')] [] =
     Inr [[(''group_name'', VStr ''g''), (''group_description'', VNull),
      (''status'', VStr ''PROGRESS''), (''milestone_id'', VNull),
      (''delete_status'', VStr ''1'')]] \<and>
   save null_ok MilestoneSchema now [(''project_id'', VId 1)] [] =
     Inr [[(''project_id'', VId 1), (''status'', VStr ''1''),
      (''created_date'', VDate now), (''is_current_milestone'', VBool False)]]"
  by (simp add: save_def validate_def TaskSchema_def GroupSchema_def MilestoneSchema_def defaultValue_def
        checkRequired_def checkEnum_def isRequired_def enumValues_def)

text \<open>
  Claim C7. For every Group record, \<open>isDeleted\<close> returns true if and only if the record's
  \<open>delete_status\<close> is the string \<open>'0'\<close>; the default that the schema declares for
  \<open>delete_status\<close> is \<open>'1'\<close>, and for a Group holding that value \<open>isDeleted\<close> returns false.
\<close>

theorem C7_isDeleted:
  "(isDeleted g \<longleftrightarrow> map_of g ''delete_status'' = Some (VStr ''0'')) \<and>
   (\<exists>opts. map_of (paths GroupSchema) ''delete_status'' = Some (Field opts) \<and>
           defaultValue now opts = Some (VStr ''1'')) \<and>
   (map_of g ''delete_status'' = Some (VStr ''1'') \<longrightarrow> \<not> isDeleted g)"
  by (simp add: isDeleted_def GroupSchema_def defaultValue_def)

theorem C7_isDeleted_witness:
  "map_of [(''group_name'', VStr ''Backlog''), (''delete_status'', VStr ''1'')] ''delete_status'' = Some (VStr ''1'') \<and>
   \<not> isDeleted [(''group_name'', VStr ''Backlog''), (''delete_status'', VStr ''1'')]"
  using C7_isDeleted [of "[(''group_name'', VStr ''Backlog''), (''delete_status'', VStr ''1'')]" 0]
  by simp




text \<open>
  Claim C9. A Task constructed without an explicit value receives the defaults:
  \<open>task_logged_time\<close> becomes the string \<open>"00:00"\<close>, \<open>status_name\<close> becomes the string
  \<open>"NEW"\<close>, and \<open>is_task_finished\<close> becomes false.
\<close>

theorem C9_task_defaults:
  "(map_of c ''task_logged_time'' = None \<longrightarrow>
      map_of (applyDefaults now (paths (TaskSchema loaded)) c) ''task_logged_time'' = Some (VStr ''00:00'')) \<and>
   (map_of c ''status_name'' = None \<longrightarrow>
      map_of (applyDefaults now (paths (TaskSchema loaded)) c) ''status_name'' = Some (VStr ''NEW'')) \<and>
   (map_of c ''is_task_finished'' = None \<longrightarrow>
      map_of (applyDefaults now (paths (TaskSchema loaded)) c) ''is_task_finished'' = Some (VBool False))"
  by (subst map_of_applyDefaults, simp add: TaskSchema_def TaskComment_def)+
     (simp add: TaskSchema_def defaultValue_def)

theorem C9_task_defaults_witness:
  "map_of [(''task_name'', VStr ''t'')] ''task_logged_time'' = None \<and>
   map_of (applyDefaults 5 (paths (TaskSchema 1)) [(''task_name'', VStr ''t'')]) ''task_logged_time'' = Some (VStr ''00:00'') \<and>
   map_of (applyDefaults 5 (paths (TaskSchema 1)) [(''task_name'', VStr ''t'')]) ''status_name'' = Some (VStr ''NEW'') \<and>
   map_of (applyDefaults 5 (paths (TaskSchema 1)) [(''task_name'', VStr ''t'')]) ''is_task_finished'' = Some (VBool False)"
  using C9_task_defaults [of "[(''task_name'', VStr ''t'')]" 5 1] by simp

text \<open>
  Claim C10. A Task comment constructed without \<open>created_At\<close>, and a TimeLog constructed
  without \<open>date\<close>, receive one fixed timestamp, the clock reading \<open>loaded\<close> of the moment the
  schema module was loaded, whatever the clock reading \<open>now\<close> at which the document is
  constructed: two such documents created at different times carry the same value. The second
  conjunct says that the comments of a Task are constructed by \<open>TaskComment\<close>.
\<close>

theorem C10_load_time_default:
  "(map_of c ''created_At'' = None \<longrightarrow>
      map_of (applyDefaults now (TaskComment loaded) c) ''created_At'' = Some (VDate loaded)) \<and>
   (map_of t ''comments'' = Some (VDocs cs) \<longrightarrow>
      map_of (applyDefaults now (paths (TaskSchema loaded)) t) ''comments'' =
        Some (VDocs (map (applyDefaults now (TaskComment loaded)) cs))) \<and>
   (map_of l ''date'' = None \<longrightarrow>
      map_of (applyDefaults now (paths (TimelogSchema toISOString loaded)) l) ''date'' =
        Some (VStr (toISOString loaded)))"
  by (subst map_of_applyDefaults, simp add: TaskSchema_def TaskComment_def TimelogSchema_def)+
     (simp add: TaskSchema_def TaskComment_def TimelogSchema_def defaultValue_def)

theorem C10_load_time_default_witness:
  "map_of (applyDefaults 1000 (TaskComment 7) [(''comment'', VStr ''first'')]) ''created_At'' = Some (VDate 7) \<and>
   map_of (applyDefaults 2000 (TaskComment 7) [(''comment'', VStr ''second'')]) ''created_At'' = Some (VDate 7) \<and>
   map_of (applyDefaults 1000 (paths (TimelogSchema (\<lambda>t. ''1970-01-01T00:00:00.007Z'') 7)) [(''task_time_spent'', VStr ''01:00'')]) ''date'' =
     map_of (applyDefaults 2000 (paths (TimelogSchema (\<lambda>t. ''1970-01-01T00:00:00.007Z'') 7)) [(''task_time_spent'', VStr ''02:00'')]) ''date''"
  using C10_load_time_default [of "[(''comment'', VStr ''first'')]" 1000 7]
        C10_load_time_default [of "[(''comment'', VStr ''second'')]" 2000 7]
        C10_load_time_default [of _ 1000 7 _ _ "[(''task_time_spent'', VStr ''01:00'')]" "\<lambda>t. ''1970-01-01T00:00:00.007Z''"]
        C10_load_time_default [of _ 2000 7 _ _ "[(''task_time_spent'', VStr ''02:00'')]" "\<lambda>t. ''1970-01-01T00:00:00.007Z''"]
  by simp

section \<open>Properties of the seed script\<close>

lemma set_all_models: "set all_models = UNIV"
proof -
  have "m \<in> set all_models" for m
    by (cases m) (simp_all add: all_models_def)
  then show ?thesis by auto
qed

lemma integrity_iff:
  "integrity s \<longleftrightarrow>
     (\<forall>m. \<forall>d \<in> set (colls s m). \<forall>(p, v) \<in> set (snd d).
        \<exists>t. map_of (references m) p = Some t \<and> id_of v \<in> fst ` set (colls s t))"
proof -
  have c: "(case x of None \<Rightarrow> False | Some t \<Rightarrow> P t) \<longleftrightarrow> (\<exists>t. x = Some t \<and> P t)"
    for x :: "model option" and P
    by (cases x) simp_all
  show ?thesis
    unfolding integrity_def list_all_iff set_all_models c by simp
qed

subsection \<open>Evaluation of the literals\<close>

lemma element_Inr:
  "element b m i = Inr n \<Longrightarrow> \<exists>ids. b m = Some ids \<and> i < length ids \<and> n = ids ! i"
  by (auto simp: element_def split: option.splits if_splits)

lemma evalExpr_Inr:
  "evalExpr b e = Inr v \<Longrightarrow>
   \<exists>ids. b (target e) = Some ids \<and> position e < length ids \<and> id_of v = ids ! position e"
  by (cases e) (auto dest!: element_Inr split: sum.splits)

lemma evalLiteral_Inr:
  "evalLiteral b l = Inr d \<Longrightarrow> (p, v) \<in> set d \<Longrightarrow>
   \<exists>e. (p, e) \<in> set l \<and> evalExpr b e = Inr v"
proof (induction l arbitrary: d)
  case Nil
  then show ?case by simp
next
  case (Cons a l)
  obtain q e where a: "a = (q, e)" by (cases a)
  from Cons.prems(1) a obtain w d' where
    w: "evalExpr b e = Inr w" and d': "evalLiteral b l = Inr d'" and d: "d = (q, w) # d'"
    by (auto split: sum.splits)
  show ?case
  proof (cases "(p, v) = (q, w)")
    case True
    then show ?thesis using a w by auto
  next
    case False
    then have "(p, v) \<in> set d'" using Cons.prems(2) d by auto
    from Cons.IH [OF d' this] show ?thesis by auto
  qed
qed

lemma evalLiterals_Inr:
  "evalLiterals b ls = Inr ds \<Longrightarrow>
   length ds = length ls \<and> (\<forall>d \<in> set ds. \<exists>l \<in> set ls. evalLiteral b l = Inr d)"
proof (induction ls arbitrary: ds)
  case Nil
  then show ?case by simp
next
  case (Cons l ls)
  from Cons.prems obtain d ds' where
    d: "evalLiteral b l = Inr d" and ds': "evalLiterals b ls = Inr ds'" and ds: "ds = d # ds'"
    by (auto split: sum.splits)
  from Cons.IH [OF ds'] show ?case using d ds by auto
qed

subsection \<open>One acknowledged batch\<close>

lemma acknowledge_simps:
  "bindings (acknowledge m w ds st) = (bindings st)(m \<mapsto> [next_id (db st) ..< next_id (db st) + length ds])"
  "colls (db (acknowledge m w ds st)) =
     (colls (db st))(m := colls (db st) m @ zip [next_id (db st) ..< next_id (db st) + length ds] ds)"
  "next_id (db (acknowledge m w ds st)) = next_id (db st) + length ds"
  "console (acknowledge m w ds st) = console st @ [Created (length ds) w]"
  "issued (acknowledge m w ds st) = issued st @ [InsertMany m]"
  by (simp_all add: acknowledge_def insertMany_def Let_def)

lemma fst_zip_upt: "fst ` set (zip [n ..< n + length ds] ds) = {n ..< n + length ds}"
proof -
  have "map fst (zip [n ..< n + length ds] ds) = [n ..< n + length ds]"
    by simp
  then have "set (map fst (zip [n ..< n + length ds] ds)) = set [n ..< n + length ds]"
    by (rule arg_cong)
  then show ?thesis unfolding set_map set_upt .
qed

lemma populate_step:
  assumes "populate f ((m, w, ls) # rest) st = (err, st')"
  shows "(\<exists>e. evalLiterals (bindings st) ls = Inl e \<and> err = Some e \<and> st' = st)
       \<or> (\<exists>ds msg. evalLiterals (bindings st) ls = Inr ds \<and> f (InsertMany m) = Some msg
             \<and> err = Some (Rejected (InsertMany m) msg) \<and> st' = st\<lparr>issued := issued st @ [InsertMany m]\<rparr>)
       \<or> (\<exists>ds. evalLiterals (bindings st) ls = Inr ds \<and> f (InsertMany m) = None
             \<and> populate f rest (acknowledge m w ds st) = (err, st'))"
  using assms by (auto split: sum.splits option.splits)

lemma populate_step_ok:
  assumes "populate f ((m, w, ls) # rest) st = (None, st')"
  shows "\<exists>ds. evalLiterals (bindings st) ls = Inr ds \<and> f (InsertMany m) = None
             \<and> populate f rest (acknowledge m w ds st) = (None, st')"
  using populate_step [OF assms] by auto


lemma colls_acknowledge_mono:
  "fst ` set (colls (db st) t) \<subseteq> fst ` set (colls (db (acknowledge m w ds st)) t)"
  by (auto simp: acknowledge_simps)

lemma acknowledge_bound_stored:
  assumes "bound_stored st"
  shows "bound_stored (acknowledge m w ds st)"
  unfolding bound_stored_def
proof (intro allI impI)
  fix t ids
  assume b: "bindings (acknowledge m w ds st) t = Some ids"
  show "set ids \<subseteq> fst ` set (colls (db (acknowledge m w ds st)) t)"
  proof (cases "t = m")
    case True
    then have "ids = [next_id (db st) ..< next_id (db st) + length ds]"
      using b by (simp add: acknowledge_simps)
    then show ?thesis using True
      by (simp add: acknowledge_simps fst_zip_upt image_Un)
  next
    case False
    then have "bindings st t = Some ids" using b by (simp add: acknowledge_simps)
    then have "set ids \<subseteq> fst ` set (colls (db st) t)"
      using assms by (simp add: bound_stored_def)
    then show ?thesis using colls_acknowledge_mono [of st t m w ds] by blast
  qed
qed

lemma acknowledge_integrity:
  assumes bs: "bound_stored st"
    and int: "integrity (db st)"
    and ev: "evalLiterals (bindings st) ls = Inr ds"
    and ty: "\<forall>l \<in> set ls. \<forall>(p, e) \<in> set l. map_of (references m) p = Some (target e)"
  shows "integrity (db (acknowledge m w ds st))"
  unfolding integrity_iff
proof (intro allI ballI, clarify)
  fix t i d p v
  assume d: "(i, d) \<in> set (colls (db (acknowledge m w ds st)) t)" and pv: "(p, v) \<in> set (snd (i, d))"
  let ?s' = "db (acknowledge m w ds st)"
  from pv have pv': "(p, v) \<in> set d" by simp
  have old: "(i, d) \<in> set (colls (db st) t) \<Longrightarrow>
      \<exists>u. map_of (references t) p = Some u \<and> id_of v \<in> fst ` set (colls ?s' u)"
  proof -
    assume "(i, d) \<in> set (colls (db st) t)"
    with int pv' obtain u where u: "map_of (references t) p = Some u"
      and "id_of v \<in> fst ` set (colls (db st) u)"
      unfolding integrity_iff by fastforce
    then have "id_of v \<in> fst ` set (colls ?s' u)"
      using colls_acknowledge_mono [of st u m w ds] by blast
    with u show ?thesis by blast
  qed
  show "\<exists>u. map_of (references t) p = Some u \<and> id_of v \<in> fst ` set (colls ?s' u)"
  proof (cases "(i, d) \<in> set (colls (db st) t)")
    case True
    then show ?thesis by (rule old)
  next
    case False
    with d have tm: "t = m" and new: "(i, d) \<in> set (zip [next_id (db st) ..< next_id (db st) + length ds] ds)"
      by (auto simp: acknowledge_simps split: if_splits)
    from new have "d \<in> set ds" by (rule set_zip_rightD)
    with evalLiterals_Inr [OF ev] obtain l where l: "l \<in> set ls" and el: "evalLiteral (bindings st) l = Inr d"
      by blast
    from evalLiteral_Inr [OF el pv'] obtain e where e: "(p, e) \<in> set l" and ee: "evalExpr (bindings st) e = Inr v"
      by blast
    from ty l e have ref: "map_of (references m) p = Some (target e)" by fastforce
    from evalExpr_Inr [OF ee] obtain ids where ids: "bindings st (target e) = Some ids"
      and pos: "position e < length ids" and v: "id_of v = ids ! position e"
      by blast
    from pos v have "id_of v \<in> set ids" by simp
    with bs ids have "id_of v \<in> fst ` set (colls (db st) (target e))"
      unfolding bound_stored_def by blast
    then have "id_of v \<in> fst ` set (colls ?s' (target e))"
      using colls_acknowledge_mono [of st "target e" m w ds] by blast
    with ref tm show ?thesis by blast
  qed
qed

subsection \<open>The populate phase\<close>

lemma populate_invariant:
  "bound_stored st \<Longrightarrow> integrity (db st) \<Longrightarrow> typed_steps steps \<Longrightarrow>
   populate f steps st = (err, st') \<Longrightarrow> bound_stored st' \<and> integrity (db st')"
proof (induction steps arbitrary: st)
  case Nil
  then show ?case by simp
next
  case (Cons a steps)
  obtain m w ls where a: "a = (m, w, ls)" by (cases a)
  from Cons.prems(3) a have ty: "\<forall>l \<in> set ls. \<forall>(p, e) \<in> set l. map_of (references m) p = Some (target e)"
    and ty': "typed_steps steps"
    by (auto simp: typed_steps_def list_all_iff)
  from Cons.prems(4) a have run: "populate f ((m, w, ls) # steps) st = (err, st')" by simp
  from populate_step [OF run] show ?case
  proof (elim disjE exE conjE)
    fix e assume "st' = st"
    then show ?thesis using Cons.prems(1,2) by simp
  next
    fix ds msg assume "st' = st\<lparr>issued := issued st @ [InsertMany m]\<rparr>"
    then show ?thesis using Cons.prems(1,2) by (simp add: bound_stored_def)
  next
    fix ds assume ev: "evalLiterals (bindings st) ls = Inr ds"
      and rest: "populate f steps (acknowledge m w ds st) = (err, st')"
    show ?thesis
      by (rule Cons.IH [OF acknowledge_bound_stored [OF Cons.prems(1)]
            acknowledge_integrity [OF Cons.prems(1,2) ev ty] ty' rest])
  qed
qed

lemma populate_issued:
  "populate f steps st = (err, st') \<Longrightarrow>
   (\<exists>k. issued st' = issued st @ map (\<lambda>(m, w, ls). InsertMany m) (take k steps)) \<and>
   (err = None \<longrightarrow> issued st' = issued st @ map (\<lambda>(m, w, ls). InsertMany m) steps)"
proof (induction steps arbitrary: st)
  case Nil
  then show ?case by simp
next
  case (Cons a steps)
  obtain m w ls where a: "a = (m, w, ls)" by (cases a)
  from Cons.prems a have run: "populate f ((m, w, ls) # steps) st = (err, st')" by simp
  from populate_step [OF run] show ?case
  proof (elim disjE exE conjE)
    fix e assume "err = Some e" "st' = st"
    then have "issued st' = issued st @ map (\<lambda>(m, w, ls). InsertMany m) (take 0 (a # steps))" by simp
    then show ?thesis using \<open>err = Some e\<close> by blast
  next
    fix ds msg assume e: "err = Some (Rejected (InsertMany m) msg)"
      and "st' = st\<lparr>issued := issued st @ [InsertMany m]\<rparr>"
    then have "issued st' = issued st @ map (\<lambda>(m, w, ls). InsertMany m) (take 1 (a # steps))"
      using a by simp
    then show ?thesis using e by blast
  next
    fix ds assume rest: "populate f steps (acknowledge m w ds st) = (err, st')"
    from Cons.IH [OF rest] obtain k where
      k: "issued st' = issued (acknowledge m w ds st) @ map (\<lambda>(m, w, ls). InsertMany m) (take k steps)"
      and all: "err = None \<longrightarrow> issued st' = issued (acknowledge m w ds st) @ map (\<lambda>(m, w, ls). InsertMany m) steps"
      by blast
    from k have "issued st' = issued st @ map (\<lambda>(m, w, ls). InsertMany m) (take (Suc k) (a # steps))"
      using a by (simp add: acknowledge_simps)
    moreover from all have "err = None \<longrightarrow> issued st' = issued st @ map (\<lambda>(m, w, ls). InsertMany m) (a # steps)"
      using a by (simp add: acknowledge_simps)
    ultimately show ?thesis by blast
  qed
qed

lemma sizes_update: "sizes (b(m \<mapsto> ids)) = (sizes b)(m \<mapsto> length ids)"
  by (rule ext) (simp add: sizes_def)

lemma populate_ok:
  "populate f steps st = (None, st') \<Longrightarrow>
     sizes (bindings st') = sizes_after (sizes (bindings st)) steps \<and>
     console st' = console st @ map (\<lambda>(m, w, ls). Created (length ls) w) steps \<and>
     (\<forall>t. length (colls (db st') t) = length (colls (db st) t) + seeded steps t) \<and>
     next_id (db st) \<le> next_id (db st') \<and>
     (\<forall>t. \<forall>d \<in> set (colls (db st') t).
         d \<in> set (colls (db st) t) \<or> (next_id (db st) \<le> fst d \<and> fst d < next_id (db st')))"
proof (induction steps arbitrary: st)
  case Nil
  then show ?case by simp
next
  case (Cons a steps)
  obtain m w ls where a: "a = (m, w, ls)" by (cases a)
  from Cons.prems a have run: "populate f ((m, w, ls) # steps) st = (None, st')" by simp
  from populate_step_ok [OF run] obtain ds where
    ev: "evalLiterals (bindings st) ls = Inr ds"
    and rest: "populate f steps (acknowledge m w ds st) = (None, st')"
    by blast
  let ?st1 = "acknowledge m w ds st"
  from evalLiterals_Inr [OF ev] have len: "length ds = length ls" by simp
  note IH = Cons.IH [OF rest]
  have sz1: "sizes (bindings ?st1) = (sizes (bindings st))(m \<mapsto> length ls)"
    unfolding acknowledge_simps(1) sizes_update using len by simp
  from IH have "sizes (bindings st') = sizes_after (sizes (bindings ?st1)) steps" by blast
  then have 1: "sizes (bindings st') = sizes_after (sizes (bindings st)) (a # steps)"
    unfolding sz1 a by simp
  have 2: "console st' = console st @ map (\<lambda>(m, w, ls). Created (length ls) w) (a # steps)"
    using IH a len by (simp add: acknowledge_simps)
  have 3: "length (colls (db st') t) = length (colls (db st) t) + seeded (a # steps) t" for t
    using IH a len by (simp add: acknowledge_simps)
  have 4: "next_id (db st) \<le> next_id (db st')"
    using IH by (simp add: acknowledge_simps)
  have 5: "d \<in> set (colls (db st) t) \<or> (next_id (db st) \<le> fst d \<and> fst d < next_id (db st'))"
    if d: "d \<in> set (colls (db st') t)" for t d
  proof -
    from IH d have "d \<in> set (colls (db ?st1) t) \<or> (next_id (db ?st1) \<le> fst d \<and> fst d < next_id (db st'))"
      by blast
    then show ?thesis
    proof
      assume "d \<in> set (colls (db ?st1) t)"
      then have "d \<in> set (colls (db st) t) \<or> d \<in> set (zip [next_id (db st) ..< next_id (db st) + length ds] ds)"
        by (auto simp: acknowledge_simps split: if_splits)
      then show ?thesis
      proof
        assume "d \<in> set (zip [next_id (db st) ..< next_id (db st) + length ds] ds)"
        then have "fst d \<in> fst ` set (zip [next_id (db st) ..< next_id (db st) + length ds] ds)"
          by (rule imageI)
        then have "next_id (db st) \<le> fst d \<and> fst d < next_id (db ?st1)"
          unfolding fst_zip_upt by (simp add: acknowledge_simps)
        moreover have "next_id (db ?st1) \<le> next_id (db st')" using IH by simp
        ultimately show ?thesis by simp
      qed simp
    next
      assume "next_id (db ?st1) \<le> fst d \<and> fst d < next_id (db st')"
      then show ?thesis by (simp add: acknowledge_simps)
    qed
  qed
  from 1 2 3 4 5 show ?case by blast
qed

lemma evalLiterals_succeeds:
  "list_all (list_all (\<lambda>(p, e). case sizes b (target e) of None \<Rightarrow> False | Some n \<Rightarrow> position e < n)) ls \<Longrightarrow>
   \<exists>ds. evalLiterals b ls = Inr ds"
proof (induction ls)
  case Nil
  then show ?case by simp
next
  case (Cons l ls)
  have one: "list_all (\<lambda>(p, e). case sizes b (target e) of None \<Rightarrow> False | Some n \<Rightarrow> position e < n) l \<Longrightarrow>
      \<exists>d. evalLiteral b l = Inr d" for l
  proof (induction l)
    case Nil
    then show ?case by simp
  next
    case (Cons a l)
    obtain p e where a: "a = (p, e)" by (cases a)
    from Cons.prems a have "case sizes b (target e) of None \<Rightarrow> False | Some n \<Rightarrow> position e < n" by simp
    then have "\<exists>v. evalExpr b e = Inr v"
      by (cases e) (auto simp: sizes_def element_def split: option.splits)
    moreover from Cons have "\<exists>d. evalLiteral b l = Inr d" by simp
    ultimately show ?case using a by auto
  qed
  from Cons show ?case using one [of l] by auto
qed

lemma populate_succeeds:
  "check_steps (sizes (bindings st)) steps \<Longrightarrow> \<forall>m. f (InsertMany m) = None \<Longrightarrow>
   fst (populate f steps st) = None"
proof (induction steps arbitrary: st)
  case Nil
  then show ?case by simp
next
  case (Cons a steps)
  obtain m w ls where a: "a = (m, w, ls)" by (cases a)
  from Cons.prems(1) a obtain ds where ev: "evalLiterals (bindings st) ls = Inr ds"
    using evalLiterals_succeeds [of "bindings st" ls] by auto
  from evalLiterals_Inr [OF ev] have len: "length ds = length ls" by simp
  have sz1: "sizes (bindings (acknowledge m w ds st)) = (sizes (bindings st))(m \<mapsto> length ls)"
    unfolding acknowledge_simps(1) sizes_update using len by simp
  have "check_steps (sizes (bindings (acknowledge m w ds st))) steps"
    unfolding sz1 using Cons.prems(1) a by simp
  from Cons.IH [OF this Cons.prems(2)] show ?case
    using a ev Cons.prems(2) by simp
qed

subsection \<open>The literals of the script\<close>

lemma typed_populate_steps: "typed_steps populate_steps"
  by code_simp

lemma check_populate_steps: "check_steps (\<lambda>m. None) populate_steps"
  by code_simp

lemma ordered_script_calls: "ordered [] script_calls"
  by code_simp

lemma seeded_populate_steps:
  "map (seeded populate_steps) all_models = [12, 10, 20, 50, 12, 14, 8, 10, 0, 5, 4, 20, 6, 34, 12, 87, 20, 10, 15]"
  by code_simp

lemma report_populate_steps:
  "report (sizes_after (\<lambda>m. None) populate_steps) =
     Inr [Summary ''Clients'' 12, Summary ''Designations'' 10,
  Summary ''Skills'' 20, Summary ''Roles'' 5, Summary ''Users'' 20,
  Summary ''Technologies'' 12, Summary ''Projects'' 10,
  Summary ''Statuses'' 6, Summary ''Milestones'' 14, Summary ''Groups'' 20,
  Summary ''Tasks'' 34, Summary ''TimeLogs'' 87,
  Summary ''Invite Users'' 50, Summary ''Permissions'' 8,
  Summary ''Sessions'' 4, Summary ''User Availabilities'' 10,
  Summary ''User Bookings'' 15, Summary ''Logged Users'' 12,
  Stat ''Sample Users Created (Total)'' 20,
  Stat ''Sample Projects Created (Total)'' 10,
  Stat ''Total Collections'' 19, Stat ''Total Documents'' 349,
  Stat ''Projects with Active Tasks'' 10, Stat ''Active Team Members'' 20]"
  by code_simp

subsection \<open>The clear phase\<close>

lemma fold_delete:
  "colls (fold (\<lambda>m s. if f (DeleteMany m) = None then deleteMany m s else s) ms s) t =
     (if t \<in> set ms \<and> f (DeleteMany t) = None then [] else colls s t)"
  "next_id (fold (\<lambda>m s. if f (DeleteMany m) = None then deleteMany m s else s) ms s) = next_id s"
  by (induction ms arbitrary: s) (auto simp: deleteMany_def)

lemma clear_facts:
  assumes "clear f st = (err, st')"
  shows "issued st' = issued st @ map DeleteMany all_models"
    and "bindings st' = bindings st"
    and "console st' = console st"
    and "next_id (db st') = next_id (db st)"
    and "err = None \<Longrightarrow> colls (db st') t = []"
    and "err = None \<longleftrightarrow> (\<forall>m. f (DeleteMany m) = None)"
proof -
  let ?find = "List.find (\<lambda>m. f (DeleteMany m) \<noteq> None) all_models"
  have none: "?find = None \<longleftrightarrow> (\<forall>m. f (DeleteMany m) = None)"
    by (simp add: find_None_iff set_all_models)
  from assms have st': "st' = st\<lparr>db := fold (\<lambda>m s. if f (DeleteMany m) = None then deleteMany m s else s)
                            all_models (db st),
                   issued := issued st @ map DeleteMany all_models\<rparr>"
    and err: "err = None \<longleftrightarrow> ?find = None"
    by (auto simp: clear_def Let_def split: option.splits)
  show "issued st' = issued st @ map DeleteMany all_models" "bindings st' = bindings st"
    "console st' = console st" "next_id (db st') = next_id (db st)"
    by (simp_all add: st' fold_delete)
  have c: "colls (db st') t = (if f (DeleteMany t) = None then [] else colls (db st) t)"
    by (simp add: st' fold_delete set_all_models)
  show iff: "err = None \<longleftrightarrow> (\<forall>m. f (DeleteMany m) = None)" using err none by simp
  show "err = None \<Longrightarrow> colls (db st') t = []"
    using c iff by simp
qed

subsection \<open>Whole runs\<close>

lemma seedDatabase_fields:
  assumes "try_block f \<lparr>bindings = (\<lambda>m. None), db = s0, console = [], issued = []\<rparr> = (err, st)"
  shows "store_after (seedDatabase f s0) = db st"
    and "calls (seedDatabase f s0) = issued st @ [Close]"
    and "caught (seedDatabase f s0) = err"
    and "printed (seedDatabase f s0) =
           console st @ (case err of None \<Rightarrow> [] | Some e \<Rightarrow> [ErrorDetails e])
             @ (if f Close = None then [ConnectionClosed] else [])"
    and "f Close = None \<Longrightarrow> ending (seedDatabase f s0) = Exit 0"
  using assms by (auto simp: seedDatabase_def Let_def process_exit_def split: option.splits)

lemma try_block_cases:
  assumes "try_block f st = (err, st')"
  shows "(\<exists>msg. f Connect = Some msg \<and> err = Some (Rejected Connect msg) \<and> st' = st\<lparr>issued := issued st @ [Connect]\<rparr>)
       \<or> (\<exists>e. f Connect = None \<and> clear f (st\<lparr>issued := issued st @ [Connect]\<rparr>) = (Some e, st') \<and> err = Some e)
       \<or> (\<exists>st2 e. f Connect = None \<and> clear f (st\<lparr>issued := issued st @ [Connect]\<rparr>) = (None, st2)
             \<and> populate f populate_steps st2 = (Some e, st') \<and> err = Some e)
       \<or> (\<exists>st2 st3 lines. f Connect = None \<and> clear f (st\<lparr>issued := issued st @ [Connect]\<rparr>) = (None, st2)
             \<and> populate f populate_steps st2 = (None, st3) \<and> err = None
             \<and> report (sizes (bindings st3)) = Inr lines \<and> st' = st3\<lparr>console := console st3 @ lines\<rparr>)
       \<or> (\<exists>st2 e. f Connect = None \<and> clear f (st\<lparr>issued := issued st @ [Connect]\<rparr>) = (None, st2)
             \<and> populate f populate_steps st2 = (None, st') \<and> report (sizes (bindings st')) = Inl e \<and> err = Some e)"
  using assms
  by (auto simp: try_block_def Let_def split: option.splits prod.splits sum.splits)


lemma seed_calls:
  "calls (seedDatabase f s0) = [Connect, Close] \<or>
   (\<exists>k. calls (seedDatabase f s0) =
          Connect # map DeleteMany all_models @ map (\<lambda>(m, w, ls). InsertMany m) (take k populate_steps) @ [Close])"
proof -
  let ?st0 = "\<lparr>bindings = (\<lambda>m. None), db = s0, console = [], issued = []\<rparr>"
  obtain err st where tb: "try_block f ?st0 = (err, st)" by (cases "try_block f ?st0")
  note calls = seedDatabase_fields(2) [OF tb]
  from try_block_cases [OF tb] show ?thesis
  proof (elim disjE exE conjE)
    fix msg assume "st = ?st0\<lparr>issued := issued ?st0 @ [Connect]\<rparr>"
    then show ?thesis using calls by simp
  next
    fix e assume "clear f (?st0\<lparr>issued := issued ?st0 @ [Connect]\<rparr>) = (Some e, st)"
    from clear_facts(1) [OF this] have "issued st = Connect # map DeleteMany all_models" by simp
    then have "calls (seedDatabase f s0) =
        Connect # map DeleteMany all_models @ map (\<lambda>(m, w, ls). InsertMany m) (take 0 populate_steps) @ [Close]"
      using calls by simp
    then show ?thesis by blast
  next
    fix st2 e
    assume cl: "clear f (?st0\<lparr>issued := issued ?st0 @ [Connect]\<rparr>) = (None, st2)"
      and po: "populate f populate_steps st2 = (Some e, st)"
    from clear_facts(1) [OF cl] have i2: "issued st2 = Connect # map DeleteMany all_models" by simp
    from populate_issued [OF po] obtain k where
      "issued st = issued st2 @ map (\<lambda>(m, w, ls). InsertMany m) (take k populate_steps)" by blast
    then have "calls (seedDatabase f s0) =
        Connect # map DeleteMany all_models @ map (\<lambda>(m, w, ls). InsertMany m) (take k populate_steps) @ [Close]"
      using calls i2 by simp
    then show ?thesis by blast
  next
    fix st2 st3 lines
    assume cl: "clear f (?st0\<lparr>issued := issued ?st0 @ [Connect]\<rparr>) = (None, st2)"
      and po: "populate f populate_steps st2 = (None, st3)"
      and st: "st = st3\<lparr>console := console st3 @ lines\<rparr>"
    from clear_facts(1) [OF cl] have i2: "issued st2 = Connect # map DeleteMany all_models" by simp
    from populate_issued [OF po] obtain k where
      "issued st3 = issued st2 @ map (\<lambda>(m, w, ls). InsertMany m) (take k populate_steps)" by blast
    moreover from st have "issued st = issued st3" by auto
    ultimately have "calls (seedDatabase f s0) =
        Connect # map DeleteMany all_models @ map (\<lambda>(m, w, ls). InsertMany m) (take k populate_steps) @ [Close]"
      using calls i2 by simp
    then show ?thesis by blast
  next
    fix st2 e
    assume cl: "clear f (?st0\<lparr>issued := issued ?st0 @ [Connect]\<rparr>) = (None, st2)"
      and po: "populate f populate_steps st2 = (None, st)"
    from clear_facts(1) [OF cl] have i2: "issued st2 = Connect # map DeleteMany all_models" by simp
    from populate_issued [OF po] obtain k where
      "issued st = issued st2 @ map (\<lambda>(m, w, ls). InsertMany m) (take k populate_steps)" by blast
    then have "calls (seedDatabase f s0) =
        Connect # map DeleteMany all_models @ map (\<lambda>(m, w, ls). InsertMany m) (take k populate_steps) @ [Close]"
      using calls i2 by simp
    then show ?thesis by blast
  qed
qed

lemma sizes_empty: "sizes (\<lambda>m. None) = (\<lambda>m. None)"
  by (simp add: sizes_def)

lemma progress_lines:
  "map (\<lambda>(m, w, ls). Created (length ls) w) populate_steps =
     [Created 12 ''clients'', Created 10 ''designations'', Created 20 ''skills'', Created 5 ''roles'',
      Created 20 ''users'', Created 12 ''technologies'', Created 10 ''projects'', Created 6 ''statuses'',
      Created 14 ''milestones'', Created 20 ''groups'', Created 34 ''tasks'', Created 87 ''timelogs'',
      Created 50 ''invite users'', Created 8 ''permissions'', Created 4 ''sessions'',
      Created 10 ''user availabilities'', Created 15 ''user bookings'', Created 12 ''logged users'']"
  by code_simp

lemma success_facts:
  assumes ok: "caught (seedDatabase f s0) = None"
  shows "calls (seedDatabase f s0) = script_calls @ [Close]"
    and "integrity (store_after (seedDatabase f s0))"
    and "length (colls (store_after (seedDatabase f s0)) t) = seeded populate_steps t"
    and "d \<in> set (colls (store_after (seedDatabase f s0)) t) \<Longrightarrow>
           next_id s0 \<le> fst d \<and> fst d < next_id (store_after (seedDatabase f s0))"
    and "\<exists>lines. report (sizes_after (\<lambda>m. None) populate_steps) = Inr lines \<and>
           printed (seedDatabase f s0) =
             map (\<lambda>(m, w, ls). Created (length ls) w) populate_steps @ lines
               @ (if f Close = None then [ConnectionClosed] else [])"
proof -
  let ?st0 = "\<lparr>bindings = (\<lambda>m. None), db = s0, console = [], issued = []\<rparr>"
  let ?st1 = "?st0\<lparr>issued := issued ?st0 @ [Connect]\<rparr>"
  obtain err st where tb: "try_block f ?st0 = (err, st)" by (cases "try_block f ?st0")
  note flds = seedDatabase_fields [OF tb]
  from ok flds(3) have err: "err = None" by simp
  from try_block_cases [OF tb] err obtain st2 st3 lines where
    cl: "clear f ?st1 = (None, st2)"
    and po: "populate f populate_steps st2 = (None, st3)"
    and rp: "report (sizes (bindings st3)) = Inr lines"
    and st: "st = st3\<lparr>console := console st3 @ lines\<rparr>"
    by auto
  note c = clear_facts [OF cl]
  have empty: "colls (db st2) u = []" for u using c(5) by simp
  have b2: "bindings st2 = (\<lambda>m. None)" using c(2) by simp
  have bs: "bound_stored st2" by (simp add: bound_stored_def b2)
  have int: "integrity (db st2)" by (simp add: integrity_iff empty)
  note p = populate_ok [OF po]
  from populate_issued [OF po] c(1)
  show "calls (seedDatabase f s0) = script_calls @ [Close]"
    using flds(2) st by (simp add: script_calls_def)
  from populate_invariant [OF bs int typed_populate_steps po]
  show "integrity (store_after (seedDatabase f s0))"
    using flds(1) st by simp
  from p show "length (colls (store_after (seedDatabase f s0)) t) = seeded populate_steps t"
    using flds(1) st empty by simp
  show "next_id s0 \<le> fst d \<and> fst d < next_id (store_after (seedDatabase f s0))"
    if "d \<in> set (colls (store_after (seedDatabase f s0)) t)"
  proof -
    from that have "d \<in> set (colls (db st3) t)" using flds(1) st by simp
    with p have "d \<in> set (colls (db st2) t) \<or> (next_id (db st2) \<le> fst d \<and> fst d < next_id (db st3))"
      by blast
    then show ?thesis using empty c(4) flds(1) st by simp
  qed
  from p have "sizes (bindings st3) = sizes_after (\<lambda>m. None) populate_steps"
    by (simp add: b2 sizes_empty)
  with rp have "report (sizes_after (\<lambda>m. None) populate_steps) = Inr lines" by simp
  moreover from p have "console st3 = map (\<lambda>(m, w, ls). Created (length ls) w) populate_steps"
    using c(3) by simp
  ultimately show "\<exists>lines. report (sizes_after (\<lambda>m. None) populate_steps) = Inr lines \<and>
           printed (seedDatabase f s0) =
             map (\<lambda>(m, w, ls). Created (length ls) w) populate_steps @ lines
               @ (if f Close = None then [ConnectionClosed] else [])"
    using flds(4) st err by simp
qed

lemma unfaulted_succeeds:
  assumes "f Connect = None" and "\<forall>m. f (DeleteMany m) = None" and "\<forall>m. f (InsertMany m) = None"
  shows "caught (seedDatabase f s0) = None"
proof -
  let ?st0 = "\<lparr>bindings = (\<lambda>m. None), db = s0, console = [], issued = []\<rparr>"
  let ?st1 = "?st0\<lparr>issued := issued ?st0 @ [Connect]\<rparr>"
  obtain e2 st2 where cl: "clear f ?st1 = (e2, st2)" by (cases "clear f ?st1")
  note c = clear_facts [OF cl]
  from c(6) assms(2) have e2: "e2 = None" by simp
  obtain e3 st3 where po: "populate f populate_steps st2 = (e3, st3)"
    by (cases "populate f populate_steps st2")
  have "check_steps (sizes (bindings st2)) populate_steps"
    using c(2) check_populate_steps by (simp add: sizes_empty)
  from populate_succeeds [OF this assms(3)] po have e3: "e3 = None" by simp
  from populate_ok [OF po [unfolded e3]] c(2)
  have "sizes (bindings st3) = sizes_after (\<lambda>m. None) populate_steps"
    by (simp add: sizes_empty)
  then have "\<exists>lines. report (sizes (bindings st3)) = Inr lines"
    using report_populate_steps by simp
  then obtain lines where rp: "report (sizes (bindings st3)) = Inr lines" by blast
  have "try_block f ?st0 = (None, st3\<lparr>console := console st3 @ lines\<rparr>)"
    using assms(1) cl e2 po e3 rp by (simp add: try_block_def Let_def)
  from seedDatabase_fields(3) [OF this] show ?thesis .
qed

lemma no_faults_succeeds: "caught (seedDatabase no_faults s0) = None"
  by (rule unfaulted_succeeds) (simp_all add: no_faults_def)

subsection \<open>Ordered traces\<close>

lemma ordered_append: "ordered seen (xs @ ys) \<Longrightarrow> ordered seen xs"
  by (induction seen xs rule: ordered.induct) auto

lemma ordered_snoc_Close: "ordered seen (xs @ [Close]) = ordered seen xs"
  by (induction seen xs rule: ordered.induct) auto

lemma ordered_before:
  "ordered seen cs \<Longrightarrow> cs = pre @ InsertMany m # post \<Longrightarrow> t \<in> set (depends m) \<Longrightarrow>
   t \<in> set seen \<or> InsertMany t \<in> set pre"
proof (induction cs arbitrary: seen pre)
  case Nil
  then show ?case by simp
next
  case (Cons c cs)
  show ?case
  proof (cases pre)
    case Nil
    with Cons.prems show ?thesis by (auto simp: list_all_iff)
  next
    case pre: (Cons c' pre')
    with Cons.prems(2) have c: "c' = c" and cs: "cs = pre' @ InsertMany m # post" by simp_all
    show ?thesis
    proof (cases c)
      case (InsertMany x)
      with Cons.prems(1) have "ordered (x # seen) cs" by simp
      from Cons.IH [OF this cs Cons.prems(3)] show ?thesis
        using pre c InsertMany by auto
    next
      case Connect
      with Cons.prems(1) have "ordered seen cs" by simp
      from Cons.IH [OF this cs Cons.prems(3)] show ?thesis using pre by auto
    next
      case (DeleteMany x)
      with Cons.prems(1) have "ordered seen cs" by simp
      from Cons.IH [OF this cs Cons.prems(3)] show ?thesis using pre by auto
    next
      case Close
      with Cons.prems(1) have "ordered seen cs" by simp
      from Cons.IH [OF this cs Cons.prems(3)] show ?thesis using pre by auto
    qed
  qed
qed

lemma seed_ordered: "ordered [] (calls (seedDatabase f s0))"
proof -
  from seed_calls [of f s0] show ?thesis
  proof (elim disjE exE)
    assume "calls (seedDatabase f s0) = [Connect, Close]"
    then show ?thesis by simp
  next
    fix k
    let ?pre = "Connect # map DeleteMany all_models @ map (\<lambda>(m, w, ls). InsertMany m) (take k populate_steps)"
    assume c: "calls (seedDatabase f s0) = Connect # map DeleteMany all_models @ map (\<lambda>(m, w, ls). InsertMany m) (take k populate_steps) @ [Close]"
    have "script_calls = ?pre @ map (\<lambda>(m, w, ls). InsertMany m) (drop k populate_steps)"
      unfolding script_calls_def by (simp flip: map_append)
    with ordered_script_calls have "ordered [] ?pre" by (metis ordered_append)
    then have "ordered [] (?pre @ [Close])" by (simp only: ordered_snoc_Close)
    then show ?thesis using c by simp
  qed
qed

lemma inserted_append: "inserted (xs @ ys) = inserted xs @ inserted ys"
  by (induction xs rule: inserted.induct) auto

lemma inserted_deletes: "inserted (map DeleteMany ms) = []"
  by (induction ms) auto

lemma inserted_inserts: "inserted (map (\<lambda>(m, w, ls). InsertMany m) steps) = map fst steps"
  by (induction steps) auto

lemma populate_order:
  "map fst populate_steps =
     [Client, Designation, Skill, Role, User, Technology, Project, Status, Milestone, Group,
      Task, TimeLog, InviteUser, Permission, Session, UserAvailability, UserBooking, LoggedUser]"
  by (simp add: populate_steps_def)

subsection \<open>The run in which no call is rejected\<close>

lemma script_calls_value:
  "script_calls =
     [Connect, DeleteMany Client, DeleteMany Designation, DeleteMany Group, DeleteMany InviteUser,
      DeleteMany LoggedUser, DeleteMany Milestone, DeleteMany Permission, DeleteMany Project,
      DeleteMany ProjectDocument, DeleteMany Role, DeleteMany Session, DeleteMany Skill,
      DeleteMany Status, DeleteMany Task, DeleteMany Technology, DeleteMany TimeLog, DeleteMany User,
      DeleteMany UserAvailability, DeleteMany UserBooking,
      InsertMany Client, InsertMany Designation, InsertMany Skill, InsertMany Role, InsertMany User,
      InsertMany Technology, InsertMany Project, InsertMany Status, InsertMany Milestone,
      InsertMany Group, InsertMany Task, InsertMany TimeLog, InsertMany InviteUser,
      InsertMany Permission, InsertMany Session, InsertMany UserAvailability, InsertMany UserBooking,
      InsertMany LoggedUser]"
  by (simp add: script_calls_def all_models_def populate_steps_def)

lemma no_faults_calls: "calls (seedDatabase no_faults s0) = script_calls @ [Close]"
  by (rule success_facts(1) [OF no_faults_succeeds])

lemma no_faults_printed:
  "printed (seedDatabase no_faults s0) =
     [Created 12 ''clients'', Created 10 ''designations'', Created 20 ''skills'', Created 5 ''roles'',
      Created 20 ''users'', Created 12 ''technologies'', Created 10 ''projects'', Created 6 ''statuses'',
      Created 14 ''milestones'', Created 20 ''groups'', Created 34 ''tasks'', Created 87 ''timelogs'',
      Created 50 ''invite users'', Created 8 ''permissions'', Created 4 ''sessions'',
      Created 10 ''user availabilities'', Created 15 ''user bookings'', Created 12 ''logged users'',
      Summary ''Clients'' 12, Summary ''Designations'' 10, Summary ''Skills'' 20, Summary ''Roles'' 5,
      Summary ''Users'' 20, Summary ''Technologies'' 12, Summary ''Projects'' 10, Summary ''Statuses'' 6,
      Summary ''Milestones'' 14, Summary ''Groups'' 20, Summary ''Tasks'' 34, Summary ''TimeLogs'' 87,
      Summary ''Invite Users'' 50, Summary ''Permissions'' 8, Summary ''Sessions'' 4,
      Summary ''User Availabilities'' 10, Summary ''User Bookings'' 15, Summary ''Logged Users'' 12,
      Stat ''Sample Users Created (Total)'' 20, Stat ''Sample Projects Created (Total)'' 10,
      Stat ''Total Collections'' 19, Stat ''Total Documents'' 349,
      Stat ''Projects with Active Tasks'' 10, Stat ''Active Team Members'' 20,
      ConnectionClosed]"
proof -
  from success_facts(5) [OF no_faults_succeeds, of s0] obtain lines where
    "report (sizes_after (\<lambda>m. None) populate_steps) = Inr lines"
    and p: "printed (seedDatabase no_faults s0) =
      map (\<lambda>(m, w, ls). Created (length ls) w) populate_steps @ lines
        @ (if no_faults Close = None then [ConnectionClosed] else [])"
    by blast
  then have "lines = [Summary ''Clients'' 12, Summary ''Designations'' 10, Summary ''Skills'' 20, Summary ''Roles'' 5,
      Summary ''Users'' 20, Summary ''Technologies'' 12, Summary ''Projects'' 10, Summary ''Statuses'' 6,
      Summary ''Milestones'' 14, Summary ''Groups'' 20, Summary ''Tasks'' 34, Summary ''TimeLogs'' 87,
      Summary ''Invite Users'' 50, Summary ''Permissions'' 8, Summary ''Sessions'' 4,
      Summary ''User Availabilities'' 10, Summary ''User Bookings'' 15, Summary ''Logged Users'' 12,
      Stat ''Sample Users Created (Total)'' 20, Stat ''Sample Projects Created (Total)'' 10,
      Stat ''Total Collections'' 19, Stat ''Total Documents'' 349,
      Stat ''Projects with Active Tasks'' 10, Stat ''Active Team Members'' 20]"
    using report_populate_steps by simp
  with p show ?thesis
    unfolding progress_lines by (simp add: no_faults_def)
qed

subsection \<open>The claims about the seed script\<close>

text \<open>
  Claim C1. In every run of \<open>seedDatabase\<close>, the batch insert of a collection is issued only
  after the batch insert of every other collection that it references by foreign key (in the
  trace of calls, an insert for each model of \<open>depends m\<close> comes before the insert for \<open>m\<close>;
  an insert is followed by another call only when it was acknowledged and its identifiers
  were bound). In the store left by a successful run, every identifier held by an inserted
  record sits on a path that references a collection, and is the identifier of a record
  inserted into that collection.
\<close>

theorem C1_referential_integrity:
  "(\<forall>pre m post t. calls (seedDatabase f s0) = pre @ InsertMany m # post \<and> t \<in> set (depends m)
       \<longrightarrow> InsertMany t \<in> set pre) \<and>
   (caught (seedDatabase f s0) = None \<longrightarrow> integrity (store_after (seedDatabase f s0)))"
proof (intro conjI allI impI)
  fix pre m post t
  assume "calls (seedDatabase f s0) = pre @ InsertMany m # post \<and> t \<in> set (depends m)"
  with ordered_before [OF seed_ordered, of f s0 pre m post t]
  show "InsertMany t \<in> set pre" by simp
next
  assume "caught (seedDatabase f s0) = None"
  then show "integrity (store_after (seedDatabase f s0))" by (rule success_facts(2))
qed

theorem C1_referential_integrity_witness:
  "caught (seedDatabase no_faults empty_store) = None \<and>
   integrity (store_after (seedDatabase no_faults empty_store)) \<and>
   calls (seedDatabase no_faults empty_store) =
     [Connect, DeleteMany Client, DeleteMany Designation, DeleteMany Group, DeleteMany InviteUser,
      DeleteMany LoggedUser, DeleteMany Milestone, DeleteMany Permission, DeleteMany Project,
      DeleteMany ProjectDocument, DeleteMany Role, DeleteMany Session, DeleteMany Skill,
      DeleteMany Status, DeleteMany Task, DeleteMany Technology, DeleteMany TimeLog, DeleteMany User,
      DeleteMany UserAvailability, DeleteMany UserBooking,
      InsertMany Client, InsertMany Designation, InsertMany Skill, InsertMany Role, InsertMany User,
      InsertMany Technology, InsertMany Project, InsertMany Status, InsertMany Milestone,
      InsertMany Group]
     @ InsertMany Task #
     [InsertMany TimeLog, InsertMany InviteUser, InsertMany Permission, InsertMany Session,
      InsertMany UserAvailability, InsertMany UserBooking, InsertMany LoggedUser, Close] \<and>
   Group \<in> set (depends Task) \<and>
   InsertMany Group \<in> set
     [Connect, DeleteMany Client, DeleteMany Designation, DeleteMany Group, DeleteMany InviteUser,
      DeleteMany LoggedUser, DeleteMany Milestone, DeleteMany Permission, DeleteMany Project,
      DeleteMany ProjectDocument, DeleteMany Role, DeleteMany Session, DeleteMany Skill,
      DeleteMany Status, DeleteMany Task, DeleteMany Technology, DeleteMany TimeLog, DeleteMany User,
      DeleteMany UserAvailability, DeleteMany UserBooking,
      InsertMany Client, InsertMany Designation, InsertMany Skill, InsertMany Role, InsertMany User,
      InsertMany Technology, InsertMany Project, InsertMany Status, InsertMany Milestone,
      InsertMany Group]"
proof -
  have ok: "caught (seedDatabase no_faults empty_store) = None" by (rule no_faults_succeeds)
  have dep: "Group \<in> set (depends Task)" by (simp add: depends_def)
  show ?thesis
    using C1_referential_integrity [of no_faults empty_store] ok dep
    by (simp add: no_faults_calls script_calls_value)
qed

text \<open>
  Claim C2, as amended. In the populate phase the inserts are issued in the order Client,
  Designation, Skill, Role, User, Technology, Project, Status, Milestone, Group, Task, TimeLog,
  InviteUser, Permission, Session, UserAvailability, UserBooking, LoggedUser: the inserts of
  every run are an initial part of this list, and a successful run issues all of it. So
  Client, Designation, Skill and Role are populated before User, while Technology, Status and
  Session are populated after User (Technology before Project, Status before Milestone, Session
  before UserAvailability).
\<close>

theorem C2_populate_order:
  "(\<exists>k. inserted (calls (seedDatabase f s0)) =
          take k [Client, Designation, Skill, Role, User, Technology, Project, Status, Milestone,
                  Group, Task, TimeLog, InviteUser, Permission, Session, UserAvailability,
                  UserBooking, LoggedUser]) \<and>
   (caught (seedDatabase f s0) = None \<longrightarrow>
      inserted (calls (seedDatabase f s0)) =
        [Client, Designation, Skill, Role, User, Technology, Project, Status, Milestone,
         Group, Task, TimeLog, InviteUser, Permission, Session, UserAvailability,
         UserBooking, LoggedUser])"
proof
  from seed_calls [of f s0]
  show "\<exists>k. inserted (calls (seedDatabase f s0)) =
          take k [Client, Designation, Skill, Role, User, Technology, Project, Status, Milestone,
                  Group, Task, TimeLog, InviteUser, Permission, Session, UserAvailability,
                  UserBooking, LoggedUser]"
  proof (elim disjE exE)
    assume "calls (seedDatabase f s0) = [Connect, Close]"
    then have "inserted (calls (seedDatabase f s0)) =
        take 0 [Client, Designation, Skill, Role, User, Technology, Project, Status, Milestone,
                  Group, Task, TimeLog, InviteUser, Permission, Session, UserAvailability,
                  UserBooking, LoggedUser]" by simp
    then show ?thesis by blast
  next
    fix k
    assume "calls (seedDatabase f s0) =
      Connect # map DeleteMany all_models @ map (\<lambda>(m, w, ls). InsertMany m) (take k populate_steps) @ [Close]"
    then have "inserted (calls (seedDatabase f s0)) = take k (map fst populate_steps)"
      by (simp add: inserted_append inserted_deletes inserted_inserts take_map)
    then show ?thesis unfolding populate_order by blast
  qed
next
  show "caught (seedDatabase f s0) = None \<longrightarrow>
      inserted (calls (seedDatabase f s0)) =
        [Client, Designation, Skill, Role, User, Technology, Project, Status, Milestone,
         Group, Task, TimeLog, InviteUser, Permission, Session, UserAvailability,
         UserBooking, LoggedUser]"
  proof
    assume "caught (seedDatabase f s0) = None"
    from success_facts(1) [OF this] show "inserted (calls (seedDatabase f s0)) =
        [Client, Designation, Skill, Role, User, Technology, Project, Status, Milestone,
         Group, Task, TimeLog, InviteUser, Permission, Session, UserAvailability,
         UserBooking, LoggedUser]"
      by (simp add: script_calls_def inserted_append inserted_deletes inserted_inserts populate_order)
  qed
qed

theorem C2_populate_order_witness:
  "caught (seedDatabase no_faults empty_store) = None \<and>
   inserted (calls (seedDatabase no_faults empty_store)) =
     [Client, Designation, Skill, Role, User, Technology, Project, Status, Milestone,
      Group, Task, TimeLog, InviteUser, Permission, Session, UserAvailability,
      UserBooking, LoggedUser]"
  using C2_populate_order [of no_faults empty_store] no_faults_succeeds [of empty_store]
  by simp

text \<open>
  Claim C2 as stated (all of Client, Designation, Skill, Role, Technology, Status and Session
  are populated before User) fails: in the run in which no call is rejected, the insert of
  Technology does not come before the insert of User.
\<close>

theorem C2_leaves_first_counterexample:
  "\<not> precedes (InsertMany Technology) (InsertMany User) (calls (seedDatabase no_faults empty_store))"
  by (simp add: no_faults_calls script_calls_value)

text \<open>
  Claim C4, as amended. In every failing run (an error thrown while connecting, clearing or
  populating, which the \<^verbatim>\<open>catch\<close> block receives), the process prints the causing error,
  then closes the connection, and, when the closing does not throw, ends through
  \<^verbatim>\<open>process.exit()\<close> without an argument: the exit code is 0.
\<close>

theorem C4_failing_run_exit:
  assumes "caught (seedDatabase f s0) = Some e"
  shows "ErrorDetails e \<in> set (printed (seedDatabase f s0)) \<and>
         last (calls (seedDatabase f s0)) = Close \<and>
         (f Close = None \<longrightarrow> ending (seedDatabase f s0) = Exit 0)"
proof -
  let ?st0 = "\<lparr>bindings = (\<lambda>m. None), db = s0, console = [], issued = []\<rparr>"
  obtain err st where tb: "try_block f ?st0 = (err, st)" by (cases "try_block f ?st0")
  note flds = seedDatabase_fields [OF tb]
  from assms flds(3) have "err = Some e" by simp
  then show ?thesis using flds(2,4,5) by simp
qed

theorem C4_failing_run_exit_witness:
  "caught (seedDatabase delete_refused empty_store) = Some (Rejected (DeleteMany Task) ''not authorized'') \<and>
   ErrorDetails (Rejected (DeleteMany Task) ''not authorized'') \<in> set (printed (seedDatabase delete_refused empty_store)) \<and>
   last (calls (seedDatabase delete_refused empty_store)) = Close \<and>
   delete_refused Close = None \<and>
   ending (seedDatabase delete_refused empty_store) = Exit 0"
proof -
  have c: "caught (seedDatabase delete_refused empty_store) = Some (Rejected (DeleteMany Task) ''not authorized'')"
    by (simp add: seedDatabase_def try_block_def clear_def delete_refused_def all_models_def Let_def)
  have "delete_refused Close = None" by (simp add: delete_refused_def)
  with C4_failing_run_exit [OF c] c show ?thesis by simp
qed

text \<open>
  Claim C4 as stated (a failing run exits with a non-zero code) fails: when the connection is
  refused, the error is caught and the process ends with exit code 0.
\<close>

theorem C4_nonzero_exit_counterexample:
  "caught (seedDatabase connect_refused empty_store) = Some (Rejected Connect ''connect ECONNREFUSED'') \<and>
   ending (seedDatabase connect_refused empty_store) = Exit 0"
  by (simp add: seedDatabase_def try_block_def connect_refused_def process_exit_def Let_def)

text \<open>
  Claim C5. A successful run prints a summary that lists each of the 19 collection names with
  the count of records created, and a grand total equal to the sum of the counts. The theorem
  evaluates the run in which no call is rejected: the summary has 18 lines, none for the
  project documents (the model is imported and cleared, and nothing is inserted for it), next
  to the printed line "Total Collections: 19"; the printed total, 349, is the sum of the 18
  counts.
\<close>

theorem C5_summary_lines:
  "summary_of (printed (seedDatabase no_faults empty_store)) =
     [(''Clients'', 12), (''Designations'', 10), (''Skills'', 20), (''Roles'', 5), (''Users'', 20),
      (''Technologies'', 12), (''Projects'', 10), (''Statuses'', 6), (''Milestones'', 14),
      (''Groups'', 20), (''Tasks'', 34), (''TimeLogs'', 87), (''Invite Users'', 50),
      (''Permissions'', 8), (''Sessions'', 4), (''User Availabilities'', 10),
      (''User Bookings'', 15), (''Logged Users'', 12)] \<and>
   length (summary_of (printed (seedDatabase no_faults empty_store))) = 18 \<and>
   ProjectDocument \<notin> set (map snd summary_lines) \<and>
   colls (store_after (seedDatabase no_faults empty_store)) ProjectDocument = [] \<and>
   stat_of ''Total Collections'' (printed (seedDatabase no_faults empty_store)) = Some 19 \<and>
   stat_of ''Total Documents'' (printed (seedDatabase no_faults empty_store)) = Some 349 \<and>
   sum_list (map snd (summary_of (printed (seedDatabase no_faults empty_store)))) = 349"
proof -
  have "length (colls (store_after (seedDatabase no_faults empty_store)) ProjectDocument) =
      seeded populate_steps ProjectDocument"
    by (rule success_facts(3) [OF no_faults_succeeds])
  also have "\<dots> = 0" by (simp add: populate_steps_def)
  finally have "colls (store_after (seedDatabase no_faults empty_store)) ProjectDocument = []" by simp
  then show ?thesis
    by (simp add: no_faults_printed summary_lines_def)
qed

text \<open>
  Claim C6. When the generator runs twice in succession against the same store and both runs
  succeed, every collection holds the same number of records after the second run as after
  the first, namely the number of literals the script has for it; and no record stored by the
  first run is in the store after the second: the second run cleared them before it
  repopulated.
\<close>

theorem C6_idempotent_reset:
  assumes "caught (seedDatabase f1 s0) = None"
    and "caught (seedDatabase f2 (store_after (seedDatabase f1 s0))) = None"
  shows "(\<forall>t. length (colls (store_after (seedDatabase f2 (store_after (seedDatabase f1 s0)))) t) =
              length (colls (store_after (seedDatabase f1 s0)) t) \<and>
              length (colls (store_after (seedDatabase f1 s0)) t) = seeded populate_steps t) \<and>
         (\<forall>t. set (colls (store_after (seedDatabase f2 (store_after (seedDatabase f1 s0)))) t) \<inter>
              set (colls (store_after (seedDatabase f1 s0)) t) = {})"
proof (intro conjI allI)
  fix t
  show "length (colls (store_after (seedDatabase f2 (store_after (seedDatabase f1 s0)))) t) =
        length (colls (store_after (seedDatabase f1 s0)) t)"
    by (simp add: success_facts(3) [OF assms(1)] success_facts(3) [OF assms(2)])
  show "length (colls (store_after (seedDatabase f1 s0)) t) = seeded populate_steps t"
    by (rule success_facts(3) [OF assms(1)])
  show "set (colls (store_after (seedDatabase f2 (store_after (seedDatabase f1 s0)))) t) \<inter>
        set (colls (store_after (seedDatabase f1 s0)) t) = {}"
  proof (rule ccontr)
    assume "\<not> ?thesis"
    then obtain d where d2: "d \<in> set (colls (store_after (seedDatabase f2 (store_after (seedDatabase f1 s0)))) t)"
      and d1: "d \<in> set (colls (store_after (seedDatabase f1 s0)) t)" by blast
    from success_facts(4) [OF assms(1) d1] have "fst d < next_id (store_after (seedDatabase f1 s0))" by simp
    moreover from success_facts(4) [OF assms(2) d2] have "next_id (store_after (seedDatabase f1 s0)) \<le> fst d" by simp
    ultimately show False by simp
  qed
qed

theorem C6_idempotent_reset_witness:
  "caught (seedDatabase no_faults empty_store) = None \<and>
   caught (seedDatabase no_faults (store_after (seedDatabase no_faults empty_store))) = None \<and>
   length (colls (store_after (seedDatabase no_faults (store_after (seedDatabase no_faults empty_store)))) Task) =
     length (colls (store_after (seedDatabase no_faults empty_store)) Task) \<and>
   length (colls (store_after (seedDatabase no_faults empty_store)) Task) = 34"
proof -
  have s: "seeded populate_steps Task = 34" by code_simp
  show ?thesis
    using C6_idempotent_reset [OF no_faults_succeeds no_faults_succeeds, of empty_store] s
    by (simp add: no_faults_succeeds)
qed

end
